theory Spec2Isabelle
  imports Complex_Main
begin

section \<open>Data model\<close>

text \<open>
  The repository wraps the external package \<^verbatim>\<open>@material/material-color-utilities\<close>
  (the palette engine).  None of the engine's code belongs to the repository, so the engine
  is a parameter of every function below: a record of its entry points.  A JavaScript call
  may throw; a thrown value is \<open>Inl\<close> of a result, a returned value is \<open>Inr\<close>.
\<close>

datatype exn = Error string

type_synonym 'a result = "exn + 'a"

text \<open>
  \<^verbatim>\<open>enum Variant\<close> of \<^verbatim>\<open>types.ts\<close>.  A TypeScript numeric enum is a number at run
  time, so a caller can hand over a number that is none of the nine members.
\<close>

type_synonym Variant = int

definition MONOCHROME :: Variant where "MONOCHROME = 0"
definition NEUTRAL :: Variant where "NEUTRAL = 1"
definition TONAL_SPOT :: Variant where "TONAL_SPOT = 2"
definition VIBRANT :: Variant where "VIBRANT = 3"
definition EXPRESSIVE :: Variant where "EXPRESSIVE = 4"
definition FIDELITY :: Variant where "FIDELITY = 5"
definition CONTENT :: Variant where "CONTENT = 6"
definition RAINBOW :: Variant where "RAINBOW = 7"
definition FRUIT_SALAD :: Variant where "FRUIT_SALAD = 8"

text \<open>
  A custom colour definition \<^verbatim>\<open>{name, value, blend}\<close>.  The provider's props carry the
  value as a hex string, the engine's \<^verbatim>\<open>CustomColor\<close> carries it as an ARGB number; the
  field \<open>val\<close> stands for \<^verbatim>\<open>value\<close>.
\<close>

record 'v CustomColor =
  name :: string
  val :: 'v
  blend :: bool

text \<open>The engine's \<^verbatim>\<open>ColorGroup\<close> and \<^verbatim>\<open>CustomColorGroup\<close>, as returned by \<^verbatim>\<open>customColor\<close>.\<close>

record ColorGroup =
  cg_color :: int
  cg_onColor :: int
  cg_colorContainer :: int
  cg_onColorContainer :: int

record CustomColorGroup =
  color :: "int CustomColor"
  group_value :: int
  group_light :: ColorGroup
  group_dark :: ColorGroup

text \<open>A tonal palette answers \<^verbatim>\<open>tone(n)\<close> with an ARGB number.\<close>

record TonalPalette =
  tone :: "int \<Rightarrow> int"

text \<open>
  The part of the engine's \<^verbatim>\<open>DynamicScheme\<close> that the repository reads: six tonal palettes
  and the colour roles, each an ARGB number.
\<close>

record DynamicScheme =
  primaryPalette :: TonalPalette
  secondaryPalette :: TonalPalette
  tertiaryPalette :: TonalPalette
  neutralPalette :: TonalPalette
  neutralVariantPalette :: TonalPalette
  errorPalette :: TonalPalette
  background :: int
  error :: int
  errorContainer :: int
  inverseOnSurface :: int
  inversePrimary :: int
  inverseSurface :: int
  onBackground :: int
  onError :: int
  onErrorContainer :: int
  onPrimary :: int
  onPrimaryContainer :: int
  onPrimaryFixed :: int
  onPrimaryFixedVariant :: int
  onSecondary :: int
  onSecondaryContainer :: int
  onSecondaryFixed :: int
  onSecondaryFixedVariant :: int
  onSurface :: int
  onSurfaceVariant :: int
  onTertiary :: int
  onTertiaryContainer :: int
  onTertiaryFixed :: int
  onTertiaryFixedVariant :: int
  outline :: int
  outlineVariant :: int
  primary :: int
  primaryContainer :: int
  primaryFixed :: int
  primaryFixedDim :: int
  scrim :: int
  secondary :: int
  secondaryContainer :: int
  secondaryFixed :: int
  secondaryFixedDim :: int
  shadow :: int
  surface :: int
  surfaceBright :: int
  surfaceContainer :: int
  surfaceContainerHigh :: int
  surfaceContainerHighest :: int
  surfaceContainerLow :: int
  surfaceContainerLowest :: int
  surfaceDim :: int
  surfaceTint :: int
  surfaceVariant :: int
  tertiary :: int
  tertiaryContainer :: int
  tertiaryFixed :: int
  tertiaryFixedDim :: int

text \<open>\<^verbatim>\<open>interface MaterialTheme\<close> of \<^verbatim>\<open>types.ts\<close>.\<close>

record Schemes =
  light :: DynamicScheme
  dark :: DynamicScheme

record MaterialTheme =
  source :: int
  variant :: Variant
  schemes :: Schemes
  customColors :: "CustomColorGroup list"

text \<open>
  The entry points of the engine that the repository imports.  \<open>'hct\<close> is the engine's
  perceptual colour type.  \<^verbatim>\<open>hexFromArgb\<close> is taken as a function that always returns.
\<close>

record 'hct engine =
  argbFromHex :: "string \<Rightarrow> int result"
  hexFromArgb :: "int \<Rightarrow> string"
  Hct_fromInt :: "int \<Rightarrow> 'hct result"
  customColor :: "int \<Rightarrow> int CustomColor \<Rightarrow> CustomColorGroup result"
  SchemeContent :: "'hct \<Rightarrow> bool \<Rightarrow> real \<Rightarrow> DynamicScheme result"
  SchemeExpressive :: "'hct \<Rightarrow> bool \<Rightarrow> real \<Rightarrow> DynamicScheme result"
  SchemeFidelity :: "'hct \<Rightarrow> bool \<Rightarrow> real \<Rightarrow> DynamicScheme result"
  SchemeFruitSalad :: "'hct \<Rightarrow> bool \<Rightarrow> real \<Rightarrow> DynamicScheme result"
  SchemeMonochrome :: "'hct \<Rightarrow> bool \<Rightarrow> real \<Rightarrow> DynamicScheme result"
  SchemeNeutral :: "'hct \<Rightarrow> bool \<Rightarrow> real \<Rightarrow> DynamicScheme result"
  SchemeRainbow :: "'hct \<Rightarrow> bool \<Rightarrow> real \<Rightarrow> DynamicScheme result"
  SchemeTonalSpot :: "'hct \<Rightarrow> bool \<Rightarrow> real \<Rightarrow> DynamicScheme result"
  SchemeVibrant :: "'hct \<Rightarrow> bool \<Rightarrow> real \<Rightarrow> DynamicScheme result"

section \<open>The theme builder (\<^verbatim>\<open>theme-utils.ts\<close>)\<close>

text \<open>
  \<^verbatim>\<open>new SchemeX(Hct.fromInt(source), isDark, contrastLevel)\<close>: the argument is evaluated
  first, then the constructor runs; whichever throws first ends the expression.
\<close>

definition newScheme ::
  "('hct \<Rightarrow> bool \<Rightarrow> real \<Rightarrow> DynamicScheme result) \<Rightarrow> 'hct engine \<Rightarrow> int \<Rightarrow> bool \<Rightarrow> real
    \<Rightarrow> DynamicScheme result" where
  "newScheme ctor eng src isDark contrastLevel =
     (case Hct_fromInt eng src of
        Inl e \<Rightarrow> Inl e
      | Inr hct \<Rightarrow> ctor hct isDark contrastLevel)"

text \<open>
  The two assignments \<^verbatim>\<open>lightScheme = new SchemeX(.., false, ..)\<close> and
  \<^verbatim>\<open>darkScheme = new SchemeX(.., true, ..)\<close>, in this order.
\<close>

definition schemePair ::
  "('hct \<Rightarrow> bool \<Rightarrow> real \<Rightarrow> DynamicScheme result) \<Rightarrow> 'hct engine \<Rightarrow> int \<Rightarrow> real
    \<Rightarrow> (DynamicScheme \<times> DynamicScheme) result" where
  "schemePair ctor eng src contrastLevel =
     (case newScheme ctor eng src False contrastLevel of
        Inl e \<Rightarrow> Inl e
      | Inr lightScheme \<Rightarrow>
          (case newScheme ctor eng src True contrastLevel of
             Inl e \<Rightarrow> Inl e
           | Inr darkScheme \<Rightarrow> Inr (lightScheme, darkScheme)))"

text \<open>\<^verbatim>\<open>xs.map(f)\<close> for an \<open>f\<close> that may throw: left to right, the first throw ends the loop.\<close>

fun mapResult :: "('a \<Rightarrow> 'b result) \<Rightarrow> 'a list \<Rightarrow> 'b list result" where
  "mapResult f [] = Inr []"
| "mapResult f (x # xs) =
     (case f x of
        Inl e \<Rightarrow> Inl e
      | Inr y \<Rightarrow> (case mapResult f xs of Inl e \<Rightarrow> Inl e | Inr ys \<Rightarrow> Inr (y # ys)))"

text \<open>
  The \<^verbatim>\<open>switch (variant)\<close> of \<^verbatim>\<open>createMaterialTheme\<close>: nine cases, compared with
  \<^verbatim>\<open>===\<close>, each assigning both schemes, and no \<^verbatim>\<open>default\<close> branch, so that any other
  value leaves the pair \<open>initial\<close> assigned before the switch.
\<close>

definition switchVariant ::
  "'hct engine \<Rightarrow> int \<Rightarrow> Variant \<Rightarrow> real \<Rightarrow> DynamicScheme \<times> DynamicScheme
    \<Rightarrow> (DynamicScheme \<times> DynamicScheme) result" where
  "switchVariant eng src vnt contrastLevel initial =
     (if vnt = MONOCHROME then schemePair (SchemeMonochrome eng) eng src contrastLevel
      else if vnt = NEUTRAL then schemePair (SchemeNeutral eng) eng src contrastLevel
      else if vnt = TONAL_SPOT then schemePair (SchemeTonalSpot eng) eng src contrastLevel
      else if vnt = VIBRANT then schemePair (SchemeVibrant eng) eng src contrastLevel
      else if vnt = EXPRESSIVE then schemePair (SchemeExpressive eng) eng src contrastLevel
      else if vnt = FIDELITY then schemePair (SchemeFidelity eng) eng src contrastLevel
      else if vnt = CONTENT then schemePair (SchemeContent eng) eng src contrastLevel
      else if vnt = RAINBOW then schemePair (SchemeRainbow eng) eng src contrastLevel
      else if vnt = FRUIT_SALAD then schemePair (SchemeFruitSalad eng) eng src contrastLevel
      else Inr initial)"

text \<open>
  \<^verbatim>\<open>createMaterialTheme\<close>: the tonal-spot pair is built first, whatever the variant; the
  switch replaces it for a recognised variant; the custom colours are derived last, inside
  the returned object literal.  There is no check of \<open>src\<close> anywhere.
\<close>

definition createMaterialTheme ::
  "'hct engine \<Rightarrow> int \<Rightarrow> Variant \<Rightarrow> real \<Rightarrow> int CustomColor list \<Rightarrow> MaterialTheme result" where
  "createMaterialTheme eng src vnt contrastLevel ccs =
     (case schemePair (SchemeTonalSpot eng) eng src contrastLevel of
        Inl e \<Rightarrow> Inl e
      | Inr initial \<Rightarrow>
         (case switchVariant eng src vnt contrastLevel initial of
            Inl e \<Rightarrow> Inl e
          | Inr (lightScheme, darkScheme) \<Rightarrow>
             (case mapResult (customColor eng src) ccs of
                Inl e \<Rightarrow> Inl e
              | Inr groups \<Rightarrow>
                  Inr \<lparr>source = src, variant = vnt,
                       schemes = \<lparr>light = lightScheme, dark = darkScheme\<rparr>,
                       customColors = groups\<rparr>)))"

section \<open>The token projector (\<^verbatim>\<open>theme-utils.ts\<close>)\<close>

text \<open>
  A JavaScript \<^verbatim>\<open>Map\<close> keeps its entries in insertion order and holds one entry for
  each key: \<^verbatim>\<open>set\<close> on a key that is present replaces the value where the entry stands,
  \<^verbatim>\<open>set\<close> on a new key appends.  \<^verbatim>\<open>new Map(entries)\<close> starts from the empty map and
  calls \<^verbatim>\<open>set\<close> for every entry in turn.  A map is modelled as its list of entries.
\<close>

type_synonym TokenMap = "(string \<times> string) list"

fun Map_set :: "'k \<Rightarrow> 'v \<Rightarrow> ('k \<times> 'v) list \<Rightarrow> ('k \<times> 'v) list" where
  "Map_set k v [] = [(k, v)]"
| "Map_set k v ((k', v') # m) =
     (if k' = k then (k', v) # m else (k', v') # Map_set k v m)"

definition new_Map :: "('k \<times> 'v) list \<Rightarrow> ('k \<times> 'v) list" where
  "new_Map entries = foldl (\<lambda>m (k, v). Map_set k v m) [] entries"

definition Map_get :: "('k \<times> 'v) list \<Rightarrow> 'k \<Rightarrow> 'v option" where
  "Map_get m k = map_of m k"

definition Map_entries :: "('k \<times> 'v) list \<Rightarrow> ('k \<times> 'v) list" where
  "Map_entries m = m"

subsection \<open>Role-direct projection\<close>

text \<open>
  The first \<^verbatim>\<open>getThemeTokens\<close> of \<^verbatim>\<open>theme-utils.ts\<close>: every token reads one role of the
  selected scheme.  \<open>roleEntries\<close> is the array literal handed to \<^verbatim>\<open>new Map\<close>.
\<close>

definition roleEntries :: "'hct engine \<Rightarrow> DynamicScheme \<Rightarrow> (string \<times> string) list" where
  "roleEntries eng scheme =
     [(''--md-sys-color-background'', hexFromArgb eng (background scheme)),
      (''--md-sys-color-error'', hexFromArgb eng (error scheme)),
      (''--md-sys-color-error-container'', hexFromArgb eng (errorContainer scheme)),
      (''--md-sys-color-inverse-on-surface'', hexFromArgb eng (inverseOnSurface scheme)),
      (''--md-sys-color-inverse-primary'', hexFromArgb eng (inversePrimary scheme)),
      (''--md-sys-color-inverse-surface'', hexFromArgb eng (inverseSurface scheme)),
      (''--md-sys-color-on-background'', hexFromArgb eng (onBackground scheme)),
      (''--md-sys-color-on-error'', hexFromArgb eng (onError scheme)),
      (''--md-sys-color-on-error-container'', hexFromArgb eng (onErrorContainer scheme)),
      (''--md-sys-color-on-primary'', hexFromArgb eng (onPrimary scheme)),
      (''--md-sys-color-on-primary-container'', hexFromArgb eng (onPrimaryContainer scheme)),
      (''--md-sys-color-on-primary-fixed'', hexFromArgb eng (onPrimaryFixed scheme)),
      (''--md-sys-color-on-primary-fixed-variant'', hexFromArgb eng (onPrimaryFixedVariant scheme)),
      (''--md-sys-color-on-secondary'', hexFromArgb eng (onSecondary scheme)),
      (''--md-sys-color-on-secondary-container'', hexFromArgb eng (onSecondaryContainer scheme)),
      (''--md-sys-color-on-secondary-fixed'', hexFromArgb eng (onSecondaryFixed scheme)),
      (''--md-sys-color-on-secondary-fixed-variant'', hexFromArgb eng (onSecondaryFixedVariant scheme)),
      (''--md-sys-color-on-surface'', hexFromArgb eng (onSurface scheme)),
      (''--md-sys-color-on-surface-variant'', hexFromArgb eng (onSurfaceVariant scheme)),
      (''--md-sys-color-on-tertiary'', hexFromArgb eng (onTertiary scheme)),
      (''--md-sys-color-on-tertiary-container'', hexFromArgb eng (onTertiaryContainer scheme)),
      (''--md-sys-color-on-tertiary-fixed'', hexFromArgb eng (onTertiaryFixed scheme)),
      (''--md-sys-color-on-tertiary-fixed-variant'', hexFromArgb eng (onTertiaryFixedVariant scheme)),
      (''--md-sys-color-outline'', hexFromArgb eng (outline scheme)),
      (''--md-sys-color-outline-variant'', hexFromArgb eng (outlineVariant scheme)),
      (''--md-sys-color-primary'', hexFromArgb eng (primary scheme)),
      (''--md-sys-color-primary-container'', hexFromArgb eng (primaryContainer scheme)),
      (''--md-sys-color-primary-fixed'', hexFromArgb eng (primaryFixed scheme)),
      (''--md-sys-color-primary-fixed-dim'', hexFromArgb eng (primaryFixedDim scheme)),
      (''--md-sys-color-scrim'', hexFromArgb eng (scrim scheme)),
      (''--md-sys-color-secondary'', hexFromArgb eng (secondary scheme)),
      (''--md-sys-color-secondary-container'', hexFromArgb eng (secondaryContainer scheme)),
      (''--md-sys-color-secondary-fixed'', hexFromArgb eng (secondaryFixed scheme)),
      (''--md-sys-color-secondary-fixed-dim'', hexFromArgb eng (secondaryFixedDim scheme)),
      (''--md-sys-color-shadow'', hexFromArgb eng (shadow scheme)),
      (''--md-sys-color-surface'', hexFromArgb eng (surface scheme)),
      (''--md-sys-color-surface-bright'', hexFromArgb eng (surfaceBright scheme)),
      (''--md-sys-color-surface-container'', hexFromArgb eng (surfaceContainer scheme)),
      (''--md-sys-color-surface-container-high'', hexFromArgb eng (surfaceContainerHigh scheme)),
      (''--md-sys-color-surface-container-highest'', hexFromArgb eng (surfaceContainerHighest scheme)),
      (''--md-sys-color-surface-container-low'', hexFromArgb eng (surfaceContainerLow scheme)),
      (''--md-sys-color-surface-container-lowest'', hexFromArgb eng (surfaceContainerLowest scheme)),
      (''--md-sys-color-surface-dim'', hexFromArgb eng (surfaceDim scheme)),
      (''--md-sys-color-surface-tint'', hexFromArgb eng (surfaceTint scheme)),
      (''--md-sys-color-surface-variant'', hexFromArgb eng (surfaceVariant scheme)),
      (''--md-sys-color-tertiary'', hexFromArgb eng (tertiary scheme)),
      (''--md-sys-color-tertiary-container'', hexFromArgb eng (tertiaryContainer scheme)),
      (''--md-sys-color-tertiary-fixed'', hexFromArgb eng (tertiaryFixed scheme)),
      (''--md-sys-color-tertiary-fixed-dim'', hexFromArgb eng (tertiaryFixedDim scheme))]"

definition getThemeTokens_role :: "'hct engine \<Rightarrow> MaterialTheme \<Rightarrow> bool \<Rightarrow> TokenMap" where
  "getThemeTokens_role eng theme isDark =
     (let scheme = (if isDark then dark (schemes theme) else light (schemes theme))
      in new_Map (roleEntries eng scheme))"

subsection \<open>Tone-direct projection\<close>

text \<open>
  The second \<^verbatim>\<open>getThemeTokens\<close> of \<^verbatim>\<open>theme-utils.ts\<close>: every token reads a tone stop of
  one of the six palettes of the selected scheme.  The source names the palettes
  \<^verbatim>\<open>primary\<close>, \<^verbatim>\<open>secondary\<close>, \<^verbatim>\<open>tertiary\<close>, \<^verbatim>\<open>neutral\<close>, \<^verbatim>\<open>neutralVariant\<close> and
  \<^verbatim>\<open>error\<close> first; here each use is written with the palette it stands for.
  \<open>lightEntries\<close> and \<open>darkEntries\<close> are the two array literals, \<open>lightColors\<close> and
  \<open>darkColors\<close> the maps made of them.  For dark mode the result is
  \<^verbatim>\<open>new Map([...lightColors.entries(), ...darkColors.entries()])\<close>.
\<close>

definition lightEntries :: "'hct engine \<Rightarrow> DynamicScheme \<Rightarrow> (string \<times> string) list" where
  "lightEntries eng scheme =
     [(''--md-sys-color-background'', hexFromArgb eng (tone (neutralPalette scheme) 98)),
      (''--md-sys-color-error'', hexFromArgb eng (tone (errorPalette scheme) 40)),
      (''--md-sys-color-error-container'', hexFromArgb eng (tone (errorPalette scheme) 90)),
      (''--md-sys-color-inverse-on-surface'', hexFromArgb eng (tone (neutralPalette scheme) 95)),
      (''--md-sys-color-inverse-primary'', hexFromArgb eng (tone (primaryPalette scheme) 80)),
      (''--md-sys-color-inverse-surface'', hexFromArgb eng (tone (neutralPalette scheme) 20)),
      (''--md-sys-color-on-background'', hexFromArgb eng (tone (neutralPalette scheme) 10)),
      (''--md-sys-color-on-error'', hexFromArgb eng (tone (errorPalette scheme) 100)),
      (''--md-sys-color-on-error-container'', hexFromArgb eng (tone (errorPalette scheme) 10)),
      (''--md-sys-color-on-primary'', hexFromArgb eng (tone (primaryPalette scheme) 100)),
      (''--md-sys-color-on-primary-container'', hexFromArgb eng (tone (primaryPalette scheme) 10)),
      (''--md-sys-color-on-primary-fixed'', hexFromArgb eng (tone (primaryPalette scheme) 10)),
      (''--md-sys-color-on-primary-fixed-variant'', hexFromArgb eng (tone (primaryPalette scheme) 30)),
      (''--md-sys-color-on-secondary'', hexFromArgb eng (tone (secondaryPalette scheme) 100)),
      (''--md-sys-color-on-secondary-container'', hexFromArgb eng (tone (secondaryPalette scheme) 10)),
      (''--md-sys-color-on-secondary-fixed'', hexFromArgb eng (tone (secondaryPalette scheme) 10)),
      (''--md-sys-color-on-secondary-fixed-variant'', hexFromArgb eng (tone (secondaryPalette scheme) 30)),
      (''--md-sys-color-on-surface'', hexFromArgb eng (tone (neutralPalette scheme) 10)),
      (''--md-sys-color-on-surface-variant'', hexFromArgb eng (tone (neutralVariantPalette scheme) 30)),
      (''--md-sys-color-on-tertiary'', hexFromArgb eng (tone (tertiaryPalette scheme) 100)),
      (''--md-sys-color-on-tertiary-container'', hexFromArgb eng (tone (tertiaryPalette scheme) 10)),
      (''--md-sys-color-on-tertiary-fixed'', hexFromArgb eng (tone (tertiaryPalette scheme) 10)),
      (''--md-sys-color-on-tertiary-fixed-variant'', hexFromArgb eng (tone (tertiaryPalette scheme) 30)),
      (''--md-sys-color-outline'', hexFromArgb eng (tone (neutralVariantPalette scheme) 50)),
      (''--md-sys-color-outline-variant'', hexFromArgb eng (tone (neutralVariantPalette scheme) 80)),
      (''--md-sys-color-primary'', hexFromArgb eng (tone (primaryPalette scheme) 40)),
      (''--md-sys-color-primary-container'', hexFromArgb eng (tone (primaryPalette scheme) 90)),
      (''--md-sys-color-primary-fixed'', hexFromArgb eng (tone (primaryPalette scheme) 90)),
      (''--md-sys-color-primary-fixed-dim'', hexFromArgb eng (tone (primaryPalette scheme) 80)),
      (''--md-sys-color-scrim'', hexFromArgb eng (tone (neutralPalette scheme) 0)),
      (''--md-sys-color-secondary'', hexFromArgb eng (tone (secondaryPalette scheme) 40)),
      (''--md-sys-color-secondary-container'', hexFromArgb eng (tone (secondaryPalette scheme) 90)),
      (''--md-sys-color-secondary-fixed'', hexFromArgb eng (tone (secondaryPalette scheme) 90)),
      (''--md-sys-color-secondary-fixed-dim'', hexFromArgb eng (tone (secondaryPalette scheme) 80)),
      (''--md-sys-color-shadow'', hexFromArgb eng (tone (neutralPalette scheme) 0)),
      (''--md-sys-color-surface'', hexFromArgb eng (tone (neutralPalette scheme) 98)),
      (''--md-sys-color-surface-bright'', hexFromArgb eng (tone (neutralPalette scheme) 98)),
      (''--md-sys-color-surface-container'', hexFromArgb eng (tone (neutralPalette scheme) 94)),
      (''--md-sys-color-surface-container-high'', hexFromArgb eng (tone (neutralPalette scheme) 92)),
      (''--md-sys-color-surface-container-highest'', hexFromArgb eng (tone (neutralPalette scheme) 90)),
      (''--md-sys-color-surface-container-low'', hexFromArgb eng (tone (neutralPalette scheme) 96)),
      (''--md-sys-color-surface-container-lowest'', hexFromArgb eng (tone (neutralPalette scheme) 100)),
      (''--md-sys-color-surface-dim'', hexFromArgb eng (tone (neutralPalette scheme) 87)),
      (''--md-sys-color-surface-tint'', hexFromArgb eng (tone (primaryPalette scheme) 40)),
      (''--md-sys-color-surface-variant'', hexFromArgb eng (tone (neutralVariantPalette scheme) 90)),
      (''--md-sys-color-tertiary'', hexFromArgb eng (tone (tertiaryPalette scheme) 40)),
      (''--md-sys-color-tertiary-container'', hexFromArgb eng (tone (tertiaryPalette scheme) 90)),
      (''--md-sys-color-tertiary-fixed'', hexFromArgb eng (tone (tertiaryPalette scheme) 90)),
      (''--md-sys-color-tertiary-fixed-dim'', hexFromArgb eng (tone (tertiaryPalette scheme) 80))]"

definition lightColors :: "'hct engine \<Rightarrow> DynamicScheme \<Rightarrow> TokenMap" where
  "lightColors eng scheme = new_Map (lightEntries eng scheme)"

definition darkEntries :: "'hct engine \<Rightarrow> DynamicScheme \<Rightarrow> (string \<times> string) list" where
  "darkEntries eng scheme =
     [(''--md-sys-color-background'', hexFromArgb eng (tone (neutralPalette scheme) 6)),
      (''--md-sys-color-error'', hexFromArgb eng (tone (errorPalette scheme) 80)),
      (''--md-sys-color-error-container'', hexFromArgb eng (tone (errorPalette scheme) 30)),
      (''--md-sys-color-inverse-on-surface'', hexFromArgb eng (tone (neutralPalette scheme) 20)),
      (''--md-sys-color-inverse-primary'', hexFromArgb eng (tone (primaryPalette scheme) 40)),
      (''--md-sys-color-inverse-surface'', hexFromArgb eng (tone (neutralPalette scheme) 90)),
      (''--md-sys-color-on-background'', hexFromArgb eng (tone (neutralPalette scheme) 90)),
      (''--md-sys-color-on-error'', hexFromArgb eng (tone (errorPalette scheme) 20)),
      (''--md-sys-color-on-error-container'', hexFromArgb eng (tone (errorPalette scheme) 90)),
      (''--md-sys-color-on-primary'', hexFromArgb eng (tone (primaryPalette scheme) 20)),
      (''--md-sys-color-on-primary-container'', hexFromArgb eng (tone (primaryPalette scheme) 90)),
      (''--md-sys-color-on-primary-fixed'', hexFromArgb eng (tone (primaryPalette scheme) 10)),
      (''--md-sys-color-on-primary-fixed-variant'', hexFromArgb eng (tone (primaryPalette scheme) 30)),
      (''--md-sys-color-on-secondary'', hexFromArgb eng (tone (secondaryPalette scheme) 20)),
      (''--md-sys-color-on-secondary-container'', hexFromArgb eng (tone (secondaryPalette scheme) 90)),
      (''--md-sys-color-on-secondary-fixed'', hexFromArgb eng (tone (secondaryPalette scheme) 10)),
      (''--md-sys-color-on-secondary-fixed-variant'', hexFromArgb eng (tone (secondaryPalette scheme) 30)),
      (''--md-sys-color-on-surface'', hexFromArgb eng (tone (neutralPalette scheme) 90)),
      (''--md-sys-color-on-surface-variant'', hexFromArgb eng (tone (neutralVariantPalette scheme) 80)),
      (''--md-sys-color-on-tertiary'', hexFromArgb eng (tone (tertiaryPalette scheme) 20)),
      (''--md-sys-color-on-tertiary-container'', hexFromArgb eng (tone (tertiaryPalette scheme) 90)),
      (''--md-sys-color-on-tertiary-fixed'', hexFromArgb eng (tone (tertiaryPalette scheme) 10)),
      (''--md-sys-color-on-tertiary-fixed-variant'', hexFromArgb eng (tone (tertiaryPalette scheme) 30)),
      (''--md-sys-color-outline'', hexFromArgb eng (tone (neutralVariantPalette scheme) 60)),
      (''--md-sys-color-outline-variant'', hexFromArgb eng (tone (neutralVariantPalette scheme) 30)),
      (''--md-sys-color-primary'', hexFromArgb eng (tone (primaryPalette scheme) 80)),
      (''--md-sys-color-primary-container'', hexFromArgb eng (tone (primaryPalette scheme) 30)),
      (''--md-sys-color-primary-fixed'', hexFromArgb eng (tone (primaryPalette scheme) 90)),
      (''--md-sys-color-primary-fixed-dim'', hexFromArgb eng (tone (primaryPalette scheme) 80)),
      (''--md-sys-color-scrim'', hexFromArgb eng (tone (neutralPalette scheme) 0)),
      (''--md-sys-color-secondary'', hexFromArgb eng (tone (secondaryPalette scheme) 80)),
      (''--md-sys-color-secondary-container'', hexFromArgb eng (tone (secondaryPalette scheme) 30)),
      (''--md-sys-color-secondary-fixed'', hexFromArgb eng (tone (secondaryPalette scheme) 90)),
      (''--md-sys-color-secondary-fixed-dim'', hexFromArgb eng (tone (secondaryPalette scheme) 80)),
      (''--md-sys-color-shadow'', hexFromArgb eng (tone (neutralPalette scheme) 0)),
      (''--md-sys-color-surface'', hexFromArgb eng (tone (neutralPalette scheme) 6)),
      (''--md-sys-color-surface-bright'', hexFromArgb eng (tone (neutralPalette scheme) 24)),
      (''--md-sys-color-surface-container'', hexFromArgb eng (tone (neutralPalette scheme) 12)),
      (''--md-sys-color-surface-container-high'', hexFromArgb eng (tone (neutralPalette scheme) 17)),
      (''--md-sys-color-surface-container-highest'', hexFromArgb eng (tone (neutralPalette scheme) 22)),
      (''--md-sys-color-surface-container-low'', hexFromArgb eng (tone (neutralPalette scheme) 10)),
      (''--md-sys-color-surface-container-lowest'', hexFromArgb eng (tone (neutralPalette scheme) 4)),
      (''--md-sys-color-surface-dim'', hexFromArgb eng (tone (neutralPalette scheme) 6)),
      (''--md-sys-color-surface-tint'', hexFromArgb eng (tone (primaryPalette scheme) 80)),
      (''--md-sys-color-surface-variant'', hexFromArgb eng (tone (neutralVariantPalette scheme) 30)),
      (''--md-sys-color-tertiary'', hexFromArgb eng (tone (tertiaryPalette scheme) 80)),
      (''--md-sys-color-tertiary-container'', hexFromArgb eng (tone (tertiaryPalette scheme) 30)),
      (''--md-sys-color-tertiary-fixed'', hexFromArgb eng (tone (tertiaryPalette scheme) 90)),
      (''--md-sys-color-tertiary-fixed-dim'', hexFromArgb eng (tone (tertiaryPalette scheme) 80))]"

definition darkColors :: "'hct engine \<Rightarrow> DynamicScheme \<Rightarrow> TokenMap" where
  "darkColors eng scheme = new_Map (darkEntries eng scheme)"

definition getThemeTokens_tone :: "'hct engine \<Rightarrow> MaterialTheme \<Rightarrow> bool \<Rightarrow> TokenMap" where
  "getThemeTokens_tone eng theme isDark =
     (let scheme = (if isDark then dark (schemes theme) else light (schemes theme))
      in if \<not> isDark then lightColors eng scheme
         else new_Map (Map_entries (lightColors eng scheme) @ Map_entries (darkColors eng scheme)))"

subsection \<open>The token names of the specification, and the composed pipeline\<close>

text \<open>
  The canonical token name list as the specification enumerates it, and the key under which
  the code stores a token: the name behind the prefix \<^verbatim>\<open>--md-sys-color-\<close>.
\<close>

definition canonicalTokenNames :: "string list" where
  "canonicalTokenNames =
     [''background'', ''error'', ''error-container'', ''inverse-on-surface'',
      ''inverse-primary'', ''inverse-surface'', ''on-background'', ''on-error'',
      ''on-error-container'', ''on-primary'', ''on-primary-container'',
      ''on-primary-fixed'', ''on-primary-fixed-variant'', ''on-secondary'',
      ''on-secondary-container'', ''on-secondary-fixed'', ''on-secondary-fixed-variant'',
      ''on-surface'', ''on-surface-variant'', ''on-tertiary'', ''on-tertiary-container'',
      ''on-tertiary-fixed'', ''on-tertiary-fixed-variant'', ''outline'',
      ''outline-variant'', ''primary'', ''primary-container'', ''primary-fixed'',
      ''primary-fixed-dim'', ''scrim'', ''secondary'', ''secondary-container'',
      ''secondary-fixed'', ''secondary-fixed-dim'', ''shadow'', ''surface'',
      ''surface-bright'', ''surface-container'', ''surface-container-high'',
      ''surface-container-highest'', ''surface-container-low'',
      ''surface-container-lowest'', ''surface-dim'', ''surface-tint'',
      ''surface-variant'', ''tertiary'', ''tertiary-container'', ''tertiary-fixed'',
      ''tertiary-fixed-dim'']"

definition tokenKey :: "string \<Rightarrow> string" where
  "tokenKey n = ''--md-sys-color-'' @ n"

text \<open>
  Building a theme and projecting it, as one function of the inputs: the builder's error if
  it throws, the token map otherwise.
\<close>

definition tokensFor_role ::
  "'hct engine \<Rightarrow> int \<Rightarrow> Variant \<Rightarrow> real \<Rightarrow> int CustomColor list \<Rightarrow> bool \<Rightarrow> TokenMap result" where
  "tokensFor_role eng src vnt contrastLevel ccs isDark =
     (case createMaterialTheme eng src vnt contrastLevel ccs of
        Inl e \<Rightarrow> Inl e
      | Inr theme \<Rightarrow> Inr (getThemeTokens_role eng theme isDark))"

definition tokensFor_tone ::
  "'hct engine \<Rightarrow> int \<Rightarrow> Variant \<Rightarrow> real \<Rightarrow> int CustomColor list \<Rightarrow> bool \<Rightarrow> TokenMap result" where
  "tokensFor_tone eng src vnt contrastLevel ccs isDark =
     (case createMaterialTheme eng src vnt contrastLevel ccs of
        Inl e \<Rightarrow> Inl e
      | Inr theme \<Rightarrow> Inr (getThemeTokens_tone eng theme isDark))"

text \<open>A colour value as \<^verbatim>\<open>#\<close> followed by six hexadecimal digits.\<close>

definition isHexDigit :: "char \<Rightarrow> bool" where
  "isHexDigit c = (c \<in> set ''0123456789abcdefABCDEF'')"

definition isHexColor :: "string \<Rightarrow> bool" where
  "isHexColor s =
     (case s of
        [] \<Rightarrow> False
      | c # ds \<Rightarrow> c = CHR ''#'' \<and> length ds = 6 \<and> list_all isHexDigit ds)"

section \<open>The theme store (\<^verbatim>\<open>MaterialThemeProvider\<close>)\<close>

text \<open>
  The provider component exists in two forms.  Form A is
  \<^verbatim>\<open>src/material-theme-provider.tsx\<close>: it takes a \<^verbatim>\<open>variant\<close> prop and creates its
  context with the default \<^verbatim>\<open>undefined\<close>.  Form B is the repository's other provider
  source: it has no \<^verbatim>\<open>variant\<close> prop, always builds with \<^verbatim>\<open>Variant.FIDELITY\<close> and
  creates its context with a default object.

  The props carry custom colours with hex-string values.  The component state is the
  \<^verbatim>\<open>useState\<close> cells; \<open>console\<close> collects the calls of \<^verbatim>\<open>console.error\<close>, each with its
  message and the caught value.
\<close>

record MaterialThemeProviderProps =
  p_isDark :: bool
  p_variant :: Variant
  p_defaultSourceColor :: string
  p_customColors :: "string CustomColor list"

record Store =
  currentScheme :: "DynamicScheme option"
  materialTheme :: "MaterialTheme option"
  sourceColor :: string
  console :: "(string \<times> exn) list"

text \<open>The state of the first render: the three \<^verbatim>\<open>useState\<close> initial values.\<close>

definition initialStore :: "MaterialThemeProviderProps \<Rightarrow> Store" where
  "initialStore props =
     \<lparr>currentScheme = None, materialTheme = None,
      sourceColor = p_defaultSourceColor props, console = []\<rparr>"

text \<open>
  Form A, the statements of the \<^verbatim>\<open>try\<close> block before \<^verbatim>\<open>setMaterialTheme\<close>: the
  conversion of the custom colours is commented out in the source and
  \<^verbatim>\<open>createMaterialTheme\<close> is called with three arguments, so that its fourth parameter
  takes its default \<^verbatim>\<open>[]\<close>.  The props' custom colours are not read.
\<close>

definition buildTheme_A ::
  "'hct engine \<Rightarrow> MaterialThemeProviderProps \<Rightarrow> Store \<Rightarrow> MaterialTheme result" where
  "buildTheme_A eng props st =
     (case argbFromHex eng (sourceColor st) of
        Inl e \<Rightarrow> Inl e
      | Inr argbColor \<Rightarrow> createMaterialTheme eng argbColor (p_variant props) 0 [])"

text \<open>
  Form B: \<^verbatim>\<open>customColors.map((color) => ({...color, value: argbFromHex(color.value)}))\<close>,
  then the builder with \<^verbatim>\<open>Variant.FIDELITY\<close> and the converted list.
\<close>

definition customColorsArgb ::
  "'hct engine \<Rightarrow> string CustomColor list \<Rightarrow> int CustomColor list result" where
  "customColorsArgb eng defs =
     mapResult
       (\<lambda>color. case argbFromHex eng (val color) of
                   Inl e \<Rightarrow> Inl e
                 | Inr argb \<Rightarrow> Inr \<lparr>name = name color, val = argb, blend = blend color\<rparr>)
       defs"

definition buildTheme_B ::
  "'hct engine \<Rightarrow> MaterialThemeProviderProps \<Rightarrow> Store \<Rightarrow> MaterialTheme result" where
  "buildTheme_B eng props st =
     (case argbFromHex eng (sourceColor st) of
        Inl e \<Rightarrow> Inl e
      | Inr argbColor \<Rightarrow>
          (case customColorsArgb eng (p_customColors props) of
             Inl e \<Rightarrow> Inl e
           | Inr ccs \<Rightarrow> createMaterialTheme eng argbColor FIDELITY 0 ccs))"

text \<open>
  The theme generation effect, the same in both forms around its \<^verbatim>\<open>try\<close> block:
  \<^verbatim>\<open>try { ...; setMaterialTheme(theme) } catch (error) { console.error(.., error) }\<close>.
  The result is a \<open>result\<close> so that a throw out of the effect would show as \<open>Inl\<close>.  React
  runs the effect after the first render and after each render in which one of its
  dependencies changed (A: \<^verbatim>\<open>[sourceColor, variant]\<close>, B: \<^verbatim>\<open>[sourceColor, customColors]\<close>).
\<close>

definition themeEffect :: "MaterialTheme result \<Rightarrow> Store \<Rightarrow> Store result" where
  "themeEffect built st =
     (case built of
        Inr theme \<Rightarrow> Inr (st\<lparr>materialTheme := Some theme\<rparr>)
      | Inl err \<Rightarrow>
          Inr (st\<lparr>console := console st @ [(''Error generating material theme:'', err)]\<rparr>))"

definition themeEffect_A ::
  "'hct engine \<Rightarrow> MaterialThemeProviderProps \<Rightarrow> Store \<Rightarrow> Store result" where
  "themeEffect_A eng props st = themeEffect (buildTheme_A eng props st) st"

definition themeEffect_B ::
  "'hct engine \<Rightarrow> MaterialThemeProviderProps \<Rightarrow> Store \<Rightarrow> Store result" where
  "themeEffect_B eng props st = themeEffect (buildTheme_B eng props st) st"

section \<open>The hook \<^verbatim>\<open>useMaterialTheme\<close>\<close>

text \<open>
  The context value.  \<^verbatim>\<open>setSourceColor\<close> is either the no-op \<^verbatim>\<open>() => {}\<close> of form B's
  default object or the state setter that a provider hands out.
\<close>

datatype SourceColorSetter = NoOp | StateSetter

record MaterialThemeContextType =
  ctx_materialTheme :: "MaterialTheme option"
  ctx_setSourceColor :: SourceColorSetter
  ctx_currentScheme :: "DynamicScheme option"

text \<open>
  React's \<^verbatim>\<open>useContext\<close>: the value of the nearest enclosing provider, or the default given
  to \<^verbatim>\<open>createContext\<close> when there is none (\<open>None\<close>).
\<close>

definition useContext :: "'a \<Rightarrow> 'a option \<Rightarrow> 'a" where
  "useContext defaultValue provider =
     (case provider of None \<Rightarrow> defaultValue | Some v \<Rightarrow> v)"

text \<open>
  The two context objects; a context value is \<open>None\<close> for \<^verbatim>\<open>undefined\<close>.
  A: \<^verbatim>\<open>createContext<MaterialThemeContextType | undefined>(undefined)\<close>.
  B: \<^verbatim>\<open>createContext<MaterialThemeContextType>({materialTheme: null, ...})\<close>.
\<close>

definition MaterialThemeContext_A :: "MaterialThemeContextType option" where
  "MaterialThemeContext_A = None"

definition MaterialThemeContext_B :: "MaterialThemeContextType option" where
  "MaterialThemeContext_B =
     Some \<lparr>ctx_materialTheme = None, ctx_setSourceColor = NoOp, ctx_currentScheme = None\<rparr>"

text \<open>The hook has the same body in both forms; only the context object differs.\<close>

definition useMaterialTheme ::
  "MaterialThemeContextType option \<Rightarrow> MaterialThemeContextType option option
    \<Rightarrow> MaterialThemeContextType result" where
  "useMaterialTheme ctx provider =
     (case useContext ctx provider of
        None \<Rightarrow> Inl (Error ''useMaterialTheme must be used within a MaterialThemeProvider'')
      | Some context \<Rightarrow> Inr context)"

definition useMaterialTheme_A ::
  "MaterialThemeContextType option option \<Rightarrow> MaterialThemeContextType result" where
  "useMaterialTheme_A provider = useMaterialTheme MaterialThemeContext_A provider"

definition useMaterialTheme_B ::
  "MaterialThemeContextType option option \<Rightarrow> MaterialThemeContextType result" where
  "useMaterialTheme_B provider = useMaterialTheme MaterialThemeContext_B provider"

section \<open>A small engine to run the functions on\<close>

text \<open>
  The theorems below hold for every engine.  To run the functions on concrete inputs a
  small engine is fixed here: it parses and prints six-digit hex colours, its perceptual
  colour is the RGB part of the seed, and it derives every colour by plain arithmetic.
  It throws only on a malformed hex string.
\<close>

definition hexDigits :: string where
  "hexDigits = ''0123456789abcdef''"

definition hexDigitValue :: "char \<Rightarrow> int option" where
  "hexDigitValue c = map_of
     [(CHR ''0'', 0), (CHR ''1'', 1), (CHR ''2'', 2), (CHR ''3'', 3), (CHR ''4'', 4),
      (CHR ''5'', 5), (CHR ''6'', 6), (CHR ''7'', 7), (CHR ''8'', 8), (CHR ''9'', 9),
      (CHR ''a'', 10), (CHR ''b'', 11), (CHR ''c'', 12), (CHR ''d'', 13), (CHR ''e'', 14),
      (CHR ''f'', 15)] c"

fun parseHexDigits :: "int \<Rightarrow> string \<Rightarrow> int option" where
  "parseHexDigits acc [] = Some acc"
| "parseHexDigits acc (c # cs) =
     (case hexDigitValue c of
        None \<Rightarrow> None
      | Some d \<Rightarrow> parseHexDigits (16 * acc + d) cs)"

definition demo_argbFromHex :: "string \<Rightarrow> int result" where
  "demo_argbFromHex hex =
     (case hex of
        [] \<Rightarrow> Inl (Error (''unexpected hex '' @ hex))
      | c # ds \<Rightarrow>
          if c = CHR ''#'' \<and> length ds = 6 then
            (case parseHexDigits 0 ds of
               None \<Rightarrow> Inl (Error (''unexpected hex '' @ hex))
             | Some rgb \<Rightarrow> Inr (0xFF000000 + rgb))
          else Inl (Error (''unexpected hex '' @ hex)))"

definition hexByte :: "int \<Rightarrow> string" where
  "hexByte b = [hexDigits ! nat (b div 16), hexDigits ! nat (b mod 16)]"

definition demo_hexFromArgb :: "int \<Rightarrow> string" where
  "demo_hexFromArgb argb =
     CHR ''#'' # hexByte (argb div 65536 mod 256) @ hexByte (argb div 256 mod 256)
       @ hexByte (argb mod 256)"

definition demo_tone :: "int \<Rightarrow> int \<Rightarrow> int" where
  "demo_tone k n = 0xFF000000 + ((k + 2 * n) mod 256) * 0x010101"

definition demo_role :: "int \<Rightarrow> int \<Rightarrow> bool \<Rightarrow> int \<Rightarrow> int" where
  "demo_role k hct isDark i =
     0xFF000000 + (hct + 4099 * k + 65793 * i + (if isDark then 0x808080 else 0)) mod 0x1000000"

definition demo_scheme :: "int \<Rightarrow> int \<Rightarrow> bool \<Rightarrow> DynamicScheme" where
  "demo_scheme k hct isDark =
     \<lparr>primaryPalette = \<lparr>tone = demo_tone (hct + k)\<rparr>,
      secondaryPalette = \<lparr>tone = demo_tone (hct + k + 1)\<rparr>,
      tertiaryPalette = \<lparr>tone = demo_tone (hct + k + 2)\<rparr>,
      neutralPalette = \<lparr>tone = demo_tone (hct + k + 3)\<rparr>,
      neutralVariantPalette = \<lparr>tone = demo_tone (hct + k + 4)\<rparr>,
      errorPalette = \<lparr>tone = demo_tone 5\<rparr>,
      background = demo_role k hct isDark 0,
      error = demo_role k hct isDark 1,
      errorContainer = demo_role k hct isDark 2,
      inverseOnSurface = demo_role k hct isDark 3,
      inversePrimary = demo_role k hct isDark 4,
      inverseSurface = demo_role k hct isDark 5,
      onBackground = demo_role k hct isDark 6,
      onError = demo_role k hct isDark 7,
      onErrorContainer = demo_role k hct isDark 8,
      onPrimary = demo_role k hct isDark 9,
      onPrimaryContainer = demo_role k hct isDark 10,
      onPrimaryFixed = demo_role k hct isDark 11,
      onPrimaryFixedVariant = demo_role k hct isDark 12,
      onSecondary = demo_role k hct isDark 13,
      onSecondaryContainer = demo_role k hct isDark 14,
      onSecondaryFixed = demo_role k hct isDark 15,
      onSecondaryFixedVariant = demo_role k hct isDark 16,
      onSurface = demo_role k hct isDark 17,
      onSurfaceVariant = demo_role k hct isDark 18,
      onTertiary = demo_role k hct isDark 19,
      onTertiaryContainer = demo_role k hct isDark 20,
      onTertiaryFixed = demo_role k hct isDark 21,
      onTertiaryFixedVariant = demo_role k hct isDark 22,
      outline = demo_role k hct isDark 23,
      outlineVariant = demo_role k hct isDark 24,
      primary = demo_role k hct isDark 25,
      primaryContainer = demo_role k hct isDark 26,
      primaryFixed = demo_role k hct isDark 27,
      primaryFixedDim = demo_role k hct isDark 28,
      scrim = demo_role k hct isDark 29,
      secondary = demo_role k hct isDark 30,
      secondaryContainer = demo_role k hct isDark 31,
      secondaryFixed = demo_role k hct isDark 32,
      secondaryFixedDim = demo_role k hct isDark 33,
      shadow = demo_role k hct isDark 34,
      surface = demo_role k hct isDark 35,
      surfaceBright = demo_role k hct isDark 36,
      surfaceContainer = demo_role k hct isDark 37,
      surfaceContainerHigh = demo_role k hct isDark 38,
      surfaceContainerHighest = demo_role k hct isDark 39,
      surfaceContainerLow = demo_role k hct isDark 40,
      surfaceContainerLowest = demo_role k hct isDark 41,
      surfaceDim = demo_role k hct isDark 42,
      surfaceTint = demo_role k hct isDark 43,
      surfaceVariant = demo_role k hct isDark 44,
      tertiary = demo_role k hct isDark 45,
      tertiaryContainer = demo_role k hct isDark 46,
      tertiaryFixed = demo_role k hct isDark 47,
      tertiaryFixedDim = demo_role k hct isDark 48\<rparr>"

definition demo_customColor :: "int \<Rightarrow> int CustomColor \<Rightarrow> CustomColorGroup result" where
  "demo_customColor src c =
     (let v = (if blend c then (val c + src) div 2 else val c) in
      Inr \<lparr>color = c, group_value = v,
           group_light = \<lparr>cg_color = demo_tone v 40, cg_onColor = demo_tone v 100,
                          cg_colorContainer = demo_tone v 90, cg_onColorContainer = demo_tone v 10\<rparr>,
           group_dark = \<lparr>cg_color = demo_tone v 80, cg_onColor = demo_tone v 20,
                         cg_colorContainer = demo_tone v 30, cg_onColorContainer = demo_tone v 90\<rparr>\<rparr>)"

definition demo_engine :: "int engine" where
  "demo_engine =
     \<lparr>argbFromHex = demo_argbFromHex,
      hexFromArgb = demo_hexFromArgb,
      Hct_fromInt = (\<lambda>argb. Inr (argb mod 0x1000000)),
      customColor = demo_customColor,
      SchemeContent = (\<lambda>hct isDark contrastLevel. Inr (demo_scheme 6 hct isDark)),
      SchemeExpressive = (\<lambda>hct isDark contrastLevel. Inr (demo_scheme 4 hct isDark)),
      SchemeFidelity = (\<lambda>hct isDark contrastLevel. Inr (demo_scheme 5 hct isDark)),
      SchemeFruitSalad = (\<lambda>hct isDark contrastLevel. Inr (demo_scheme 8 hct isDark)),
      SchemeMonochrome = (\<lambda>hct isDark contrastLevel. Inr (demo_scheme 0 hct isDark)),
      SchemeNeutral = (\<lambda>hct isDark contrastLevel. Inr (demo_scheme 1 hct isDark)),
      SchemeRainbow = (\<lambda>hct isDark contrastLevel. Inr (demo_scheme 7 hct isDark)),
      SchemeTonalSpot = (\<lambda>hct isDark contrastLevel. Inr (demo_scheme 2 hct isDark)),
      SchemeVibrant = (\<lambda>hct isDark contrastLevel. Inr (demo_scheme 3 hct isDark))\<rparr>"

section \<open>Vocabulary of the properties\<close>

text \<open>The nine scheme constructors of an engine, and "every engine call of the builder returns".\<close>

definition schemeConstructors ::
  "'hct engine \<Rightarrow> ('hct \<Rightarrow> bool \<Rightarrow> real \<Rightarrow> DynamicScheme result) list" where
  "schemeConstructors eng =
     [SchemeMonochrome eng, SchemeNeutral eng, SchemeTonalSpot eng, SchemeVibrant eng,
      SchemeExpressive eng, SchemeFidelity eng, SchemeContent eng, SchemeRainbow eng,
      SchemeFruitSalad eng]"

definition engineReturns :: "'hct engine \<Rightarrow> int \<Rightarrow> real \<Rightarrow> int CustomColor list \<Rightarrow> bool" where
  "engineReturns eng src contrastLevel ccs =
     ((case Hct_fromInt eng src of
         Inl e \<Rightarrow> False
       | Inr hct \<Rightarrow>
           list_all (\<lambda>ctor. \<not> isl (ctor hct False contrastLevel) \<and> \<not> isl (ctor hct True contrastLevel))
             (schemeConstructors eng))
      \<and> list_all (\<lambda>c. \<not> isl (customColor eng src c)) ccs)"

text \<open>
  An engine that checks the seed itself: \<open>demo_engine\<close> with a \<^verbatim>\<open>Hct.fromInt\<close> that throws
  outside \<open>[0, 0xFFFFFF]\<close>.
\<close>

definition strict_engine :: "int engine" where
  "strict_engine =
     demo_engine\<lparr>Hct_fromInt :=
       (\<lambda>argb. if 0 \<le> argb \<and> argb \<le> 0xFFFFFF then Inr argb
               else Inl (Error ''color out of range''))\<rparr>"

text \<open>
  The six tonal palettes of a scheme, and "this value is a tone stop in \<open>[0, 100]\<close> of one
  of them, printed by \<^verbatim>\<open>hexFromArgb\<close>".
\<close>

definition palettes :: "DynamicScheme \<Rightarrow> TonalPalette list" where
  "palettes scheme =
     [primaryPalette scheme, secondaryPalette scheme, tertiaryPalette scheme,
      neutralPalette scheme, neutralVariantPalette scheme, errorPalette scheme]"

definition isToneOf :: "'hct engine \<Rightarrow> DynamicScheme \<Rightarrow> string \<Rightarrow> bool" where
  "isToneOf eng scheme v =
     (\<exists>p \<in> set (palettes scheme). \<exists>n \<in> {0..100}. v = hexFromArgb eng (tone p n))"

section \<open>The builder and the projector over an engine with state\<close>

text \<open>
  Above, an engine entry point is a function of its arguments.  To ask whether
  \<^verbatim>\<open>theme-utils.ts\<close> keeps state of its own, the same code is read once more over an engine
  whose calls may read and change a state \<open>'w\<close> that the repository cannot see (caches,
  counters, anything the package holds): a call takes the state and returns its answer with
  the next state.  The twelve entry points are those that \<^verbatim>\<open>theme-utils.ts\<close> imports.
  The file has no variable outside its two functions, so the state is changed by engine
  calls only, and it is threaded through them in the order in which JavaScript evaluates
  them.  A scheme that a constructor has returned is a value, as the data model has it.
\<close>

type_synonym ('a, 'w) call = "'w \<Rightarrow> 'a result \<times> 'w"

record ('hct, 'w) stateful_engine =
  st_hexFromArgb :: "int \<Rightarrow> 'w \<Rightarrow> string \<times> 'w"
  st_Hct_fromInt :: "int \<Rightarrow> ('hct, 'w) call"
  st_customColor :: "int \<Rightarrow> int CustomColor \<Rightarrow> (CustomColorGroup, 'w) call"
  st_SchemeContent :: "'hct \<Rightarrow> bool \<Rightarrow> real \<Rightarrow> (DynamicScheme, 'w) call"
  st_SchemeExpressive :: "'hct \<Rightarrow> bool \<Rightarrow> real \<Rightarrow> (DynamicScheme, 'w) call"
  st_SchemeFidelity :: "'hct \<Rightarrow> bool \<Rightarrow> real \<Rightarrow> (DynamicScheme, 'w) call"
  st_SchemeFruitSalad :: "'hct \<Rightarrow> bool \<Rightarrow> real \<Rightarrow> (DynamicScheme, 'w) call"
  st_SchemeMonochrome :: "'hct \<Rightarrow> bool \<Rightarrow> real \<Rightarrow> (DynamicScheme, 'w) call"
  st_SchemeNeutral :: "'hct \<Rightarrow> bool \<Rightarrow> real \<Rightarrow> (DynamicScheme, 'w) call"
  st_SchemeRainbow :: "'hct \<Rightarrow> bool \<Rightarrow> real \<Rightarrow> (DynamicScheme, 'w) call"
  st_SchemeTonalSpot :: "'hct \<Rightarrow> bool \<Rightarrow> real \<Rightarrow> (DynamicScheme, 'w) call"
  st_SchemeVibrant :: "'hct \<Rightarrow> bool \<Rightarrow> real \<Rightarrow> (DynamicScheme, 'w) call"

text \<open>One call after another: a throw ends the sequence and keeps the state it left.\<close>

definition bind_call :: "('a, 'w) call \<Rightarrow> ('a \<Rightarrow> ('b, 'w) call) \<Rightarrow> ('b, 'w) call" where
  "bind_call m f w =
     (case m w of
        (Inl e, w1) \<Rightarrow> (Inl e, w1)
      | (Inr x, w1) \<Rightarrow> f x w1)"

fun mapCall :: "('a \<Rightarrow> ('b, 'w) call) \<Rightarrow> 'a list \<Rightarrow> ('b list, 'w) call" where
  "mapCall f [] w = (Inr [], w)"
| "mapCall f (x # xs) w =
     bind_call (f x) (\<lambda>y. bind_call (mapCall f xs) (\<lambda>ys w2. (Inr (y # ys), w2))) w"

fun mapState :: "('a \<Rightarrow> 'w \<Rightarrow> 'b \<times> 'w) \<Rightarrow> 'a list \<Rightarrow> 'w \<Rightarrow> 'b list \<times> 'w" where
  "mapState f [] w = ([], w)"
| "mapState f (x # xs) w =
     (case f x w of
        (y, w1) \<Rightarrow> (case mapState f xs w1 of (ys, w2) \<Rightarrow> (y # ys, w2)))"

subsection \<open>\<^verbatim>\<open>createMaterialTheme\<close>\<close>

definition newScheme_st ::
  "('hct \<Rightarrow> bool \<Rightarrow> real \<Rightarrow> (DynamicScheme, 'w) call) \<Rightarrow> ('hct, 'w) stateful_engine \<Rightarrow> int
    \<Rightarrow> bool \<Rightarrow> real \<Rightarrow> (DynamicScheme, 'w) call" where
  "newScheme_st ctor eng src isDark contrastLevel =
     bind_call (st_Hct_fromInt eng src) (\<lambda>hct. ctor hct isDark contrastLevel)"

definition schemePair_st ::
  "('hct \<Rightarrow> bool \<Rightarrow> real \<Rightarrow> (DynamicScheme, 'w) call) \<Rightarrow> ('hct, 'w) stateful_engine \<Rightarrow> int
    \<Rightarrow> real \<Rightarrow> (DynamicScheme \<times> DynamicScheme, 'w) call" where
  "schemePair_st ctor eng src contrastLevel =
     bind_call (newScheme_st ctor eng src False contrastLevel) (\<lambda>lightScheme.
     bind_call (newScheme_st ctor eng src True contrastLevel) (\<lambda>darkScheme w.
       (Inr (lightScheme, darkScheme), w)))"

definition switchVariant_st ::
  "('hct, 'w) stateful_engine \<Rightarrow> int \<Rightarrow> Variant \<Rightarrow> real \<Rightarrow> DynamicScheme \<times> DynamicScheme
    \<Rightarrow> (DynamicScheme \<times> DynamicScheme, 'w) call" where
  "switchVariant_st eng src vnt contrastLevel initial =
     (if vnt = MONOCHROME then schemePair_st (st_SchemeMonochrome eng) eng src contrastLevel
      else if vnt = NEUTRAL then schemePair_st (st_SchemeNeutral eng) eng src contrastLevel
      else if vnt = TONAL_SPOT then schemePair_st (st_SchemeTonalSpot eng) eng src contrastLevel
      else if vnt = VIBRANT then schemePair_st (st_SchemeVibrant eng) eng src contrastLevel
      else if vnt = EXPRESSIVE then schemePair_st (st_SchemeExpressive eng) eng src contrastLevel
      else if vnt = FIDELITY then schemePair_st (st_SchemeFidelity eng) eng src contrastLevel
      else if vnt = CONTENT then schemePair_st (st_SchemeContent eng) eng src contrastLevel
      else if vnt = RAINBOW then schemePair_st (st_SchemeRainbow eng) eng src contrastLevel
      else if vnt = FRUIT_SALAD then schemePair_st (st_SchemeFruitSalad eng) eng src contrastLevel
      else (\<lambda>w. (Inr initial, w)))"

definition createMaterialTheme_st ::
  "('hct, 'w) stateful_engine \<Rightarrow> int \<Rightarrow> Variant \<Rightarrow> real \<Rightarrow> int CustomColor list
    \<Rightarrow> (MaterialTheme, 'w) call" where
  "createMaterialTheme_st eng src vnt contrastLevel ccs =
     bind_call (schemePair_st (st_SchemeTonalSpot eng) eng src contrastLevel) (\<lambda>initial.
     bind_call (switchVariant_st eng src vnt contrastLevel initial) (\<lambda>(lightScheme, darkScheme).
     bind_call (mapCall (st_customColor eng src) ccs) (\<lambda>groups w.
       (Inr \<lparr>source = src, variant = vnt,
             schemes = \<lparr>light = lightScheme, dark = darkScheme\<rparr>,
             customColors = groups\<rparr>, w))))"

subsection \<open>\<^verbatim>\<open>getThemeTokens\<close>\<close>

text \<open>
  The arguments of the \<^verbatim>\<open>hexFromArgb\<close> calls of the three array literals, in the order of
  the literals: \<open>roleArgbs\<close> for the role-direct projection, \<open>lightArgbs\<close> and \<open>darkArgbs\<close>
  for the tone-direct one.  \<open>hexEntries\<close> makes the calls from first to last.
\<close>

definition roleArgbs :: "DynamicScheme \<Rightarrow> (string \<times> int) list" where
  "roleArgbs scheme =
     [(''--md-sys-color-background'', background scheme),
      (''--md-sys-color-error'', error scheme),
      (''--md-sys-color-error-container'', errorContainer scheme),
      (''--md-sys-color-inverse-on-surface'', inverseOnSurface scheme),
      (''--md-sys-color-inverse-primary'', inversePrimary scheme),
      (''--md-sys-color-inverse-surface'', inverseSurface scheme),
      (''--md-sys-color-on-background'', onBackground scheme),
      (''--md-sys-color-on-error'', onError scheme),
      (''--md-sys-color-on-error-container'', onErrorContainer scheme),
      (''--md-sys-color-on-primary'', onPrimary scheme),
      (''--md-sys-color-on-primary-container'', onPrimaryContainer scheme),
      (''--md-sys-color-on-primary-fixed'', onPrimaryFixed scheme),
      (''--md-sys-color-on-primary-fixed-variant'', onPrimaryFixedVariant scheme),
      (''--md-sys-color-on-secondary'', onSecondary scheme),
      (''--md-sys-color-on-secondary-container'', onSecondaryContainer scheme),
      (''--md-sys-color-on-secondary-fixed'', onSecondaryFixed scheme),
      (''--md-sys-color-on-secondary-fixed-variant'', onSecondaryFixedVariant scheme),
      (''--md-sys-color-on-surface'', onSurface scheme),
      (''--md-sys-color-on-surface-variant'', onSurfaceVariant scheme),
      (''--md-sys-color-on-tertiary'', onTertiary scheme),
      (''--md-sys-color-on-tertiary-container'', onTertiaryContainer scheme),
      (''--md-sys-color-on-tertiary-fixed'', onTertiaryFixed scheme),
      (''--md-sys-color-on-tertiary-fixed-variant'', onTertiaryFixedVariant scheme),
      (''--md-sys-color-outline'', outline scheme),
      (''--md-sys-color-outline-variant'', outlineVariant scheme),
      (''--md-sys-color-primary'', primary scheme),
      (''--md-sys-color-primary-container'', primaryContainer scheme),
      (''--md-sys-color-primary-fixed'', primaryFixed scheme),
      (''--md-sys-color-primary-fixed-dim'', primaryFixedDim scheme),
      (''--md-sys-color-scrim'', scrim scheme),
      (''--md-sys-color-secondary'', secondary scheme),
      (''--md-sys-color-secondary-container'', secondaryContainer scheme),
      (''--md-sys-color-secondary-fixed'', secondaryFixed scheme),
      (''--md-sys-color-secondary-fixed-dim'', secondaryFixedDim scheme),
      (''--md-sys-color-shadow'', shadow scheme),
      (''--md-sys-color-surface'', surface scheme),
      (''--md-sys-color-surface-bright'', surfaceBright scheme),
      (''--md-sys-color-surface-container'', surfaceContainer scheme),
      (''--md-sys-color-surface-container-high'', surfaceContainerHigh scheme),
      (''--md-sys-color-surface-container-highest'', surfaceContainerHighest scheme),
      (''--md-sys-color-surface-container-low'', surfaceContainerLow scheme),
      (''--md-sys-color-surface-container-lowest'', surfaceContainerLowest scheme),
      (''--md-sys-color-surface-dim'', surfaceDim scheme),
      (''--md-sys-color-surface-tint'', surfaceTint scheme),
      (''--md-sys-color-surface-variant'', surfaceVariant scheme),
      (''--md-sys-color-tertiary'', tertiary scheme),
      (''--md-sys-color-tertiary-container'', tertiaryContainer scheme),
      (''--md-sys-color-tertiary-fixed'', tertiaryFixed scheme),
      (''--md-sys-color-tertiary-fixed-dim'', tertiaryFixedDim scheme)]"

definition lightArgbs :: "DynamicScheme \<Rightarrow> (string \<times> int) list" where
  "lightArgbs scheme =
     [(''--md-sys-color-background'', tone (neutralPalette scheme) 98),
      (''--md-sys-color-error'', tone (errorPalette scheme) 40),
      (''--md-sys-color-error-container'', tone (errorPalette scheme) 90),
      (''--md-sys-color-inverse-on-surface'', tone (neutralPalette scheme) 95),
      (''--md-sys-color-inverse-primary'', tone (primaryPalette scheme) 80),
      (''--md-sys-color-inverse-surface'', tone (neutralPalette scheme) 20),
      (''--md-sys-color-on-background'', tone (neutralPalette scheme) 10),
      (''--md-sys-color-on-error'', tone (errorPalette scheme) 100),
      (''--md-sys-color-on-error-container'', tone (errorPalette scheme) 10),
      (''--md-sys-color-on-primary'', tone (primaryPalette scheme) 100),
      (''--md-sys-color-on-primary-container'', tone (primaryPalette scheme) 10),
      (''--md-sys-color-on-primary-fixed'', tone (primaryPalette scheme) 10),
      (''--md-sys-color-on-primary-fixed-variant'', tone (primaryPalette scheme) 30),
      (''--md-sys-color-on-secondary'', tone (secondaryPalette scheme) 100),
      (''--md-sys-color-on-secondary-container'', tone (secondaryPalette scheme) 10),
      (''--md-sys-color-on-secondary-fixed'', tone (secondaryPalette scheme) 10),
      (''--md-sys-color-on-secondary-fixed-variant'', tone (secondaryPalette scheme) 30),
      (''--md-sys-color-on-surface'', tone (neutralPalette scheme) 10),
      (''--md-sys-color-on-surface-variant'', tone (neutralVariantPalette scheme) 30),
      (''--md-sys-color-on-tertiary'', tone (tertiaryPalette scheme) 100),
      (''--md-sys-color-on-tertiary-container'', tone (tertiaryPalette scheme) 10),
      (''--md-sys-color-on-tertiary-fixed'', tone (tertiaryPalette scheme) 10),
      (''--md-sys-color-on-tertiary-fixed-variant'', tone (tertiaryPalette scheme) 30),
      (''--md-sys-color-outline'', tone (neutralVariantPalette scheme) 50),
      (''--md-sys-color-outline-variant'', tone (neutralVariantPalette scheme) 80),
      (''--md-sys-color-primary'', tone (primaryPalette scheme) 40),
      (''--md-sys-color-primary-container'', tone (primaryPalette scheme) 90),
      (''--md-sys-color-primary-fixed'', tone (primaryPalette scheme) 90),
      (''--md-sys-color-primary-fixed-dim'', tone (primaryPalette scheme) 80),
      (''--md-sys-color-scrim'', tone (neutralPalette scheme) 0),
      (''--md-sys-color-secondary'', tone (secondaryPalette scheme) 40),
      (''--md-sys-color-secondary-container'', tone (secondaryPalette scheme) 90),
      (''--md-sys-color-secondary-fixed'', tone (secondaryPalette scheme) 90),
      (''--md-sys-color-secondary-fixed-dim'', tone (secondaryPalette scheme) 80),
      (''--md-sys-color-shadow'', tone (neutralPalette scheme) 0),
      (''--md-sys-color-surface'', tone (neutralPalette scheme) 98),
      (''--md-sys-color-surface-bright'', tone (neutralPalette scheme) 98),
      (''--md-sys-color-surface-container'', tone (neutralPalette scheme) 94),
      (''--md-sys-color-surface-container-high'', tone (neutralPalette scheme) 92),
      (''--md-sys-color-surface-container-highest'', tone (neutralPalette scheme) 90),
      (''--md-sys-color-surface-container-low'', tone (neutralPalette scheme) 96),
      (''--md-sys-color-surface-container-lowest'', tone (neutralPalette scheme) 100),
      (''--md-sys-color-surface-dim'', tone (neutralPalette scheme) 87),
      (''--md-sys-color-surface-tint'', tone (primaryPalette scheme) 40),
      (''--md-sys-color-surface-variant'', tone (neutralVariantPalette scheme) 90),
      (''--md-sys-color-tertiary'', tone (tertiaryPalette scheme) 40),
      (''--md-sys-color-tertiary-container'', tone (tertiaryPalette scheme) 90),
      (''--md-sys-color-tertiary-fixed'', tone (tertiaryPalette scheme) 90),
      (''--md-sys-color-tertiary-fixed-dim'', tone (tertiaryPalette scheme) 80)]"

definition darkArgbs :: "DynamicScheme \<Rightarrow> (string \<times> int) list" where
  "darkArgbs scheme =
     [(''--md-sys-color-background'', tone (neutralPalette scheme) 6),
      (''--md-sys-color-error'', tone (errorPalette scheme) 80),
      (''--md-sys-color-error-container'', tone (errorPalette scheme) 30),
      (''--md-sys-color-inverse-on-surface'', tone (neutralPalette scheme) 20),
      (''--md-sys-color-inverse-primary'', tone (primaryPalette scheme) 40),
      (''--md-sys-color-inverse-surface'', tone (neutralPalette scheme) 90),
      (''--md-sys-color-on-background'', tone (neutralPalette scheme) 90),
      (''--md-sys-color-on-error'', tone (errorPalette scheme) 20),
      (''--md-sys-color-on-error-container'', tone (errorPalette scheme) 90),
      (''--md-sys-color-on-primary'', tone (primaryPalette scheme) 20),
      (''--md-sys-color-on-primary-container'', tone (primaryPalette scheme) 90),
      (''--md-sys-color-on-primary-fixed'', tone (primaryPalette scheme) 10),
      (''--md-sys-color-on-primary-fixed-variant'', tone (primaryPalette scheme) 30),
      (''--md-sys-color-on-secondary'', tone (secondaryPalette scheme) 20),
      (''--md-sys-color-on-secondary-container'', tone (secondaryPalette scheme) 90),
      (''--md-sys-color-on-secondary-fixed'', tone (secondaryPalette scheme) 10),
      (''--md-sys-color-on-secondary-fixed-variant'', tone (secondaryPalette scheme) 30),
      (''--md-sys-color-on-surface'', tone (neutralPalette scheme) 90),
      (''--md-sys-color-on-surface-variant'', tone (neutralVariantPalette scheme) 80),
      (''--md-sys-color-on-tertiary'', tone (tertiaryPalette scheme) 20),
      (''--md-sys-color-on-tertiary-container'', tone (tertiaryPalette scheme) 90),
      (''--md-sys-color-on-tertiary-fixed'', tone (tertiaryPalette scheme) 10),
      (''--md-sys-color-on-tertiary-fixed-variant'', tone (tertiaryPalette scheme) 30),
      (''--md-sys-color-outline'', tone (neutralVariantPalette scheme) 60),
      (''--md-sys-color-outline-variant'', tone (neutralVariantPalette scheme) 30),
      (''--md-sys-color-primary'', tone (primaryPalette scheme) 80),
      (''--md-sys-color-primary-container'', tone (primaryPalette scheme) 30),
      (''--md-sys-color-primary-fixed'', tone (primaryPalette scheme) 90),
      (''--md-sys-color-primary-fixed-dim'', tone (primaryPalette scheme) 80),
      (''--md-sys-color-scrim'', tone (neutralPalette scheme) 0),
      (''--md-sys-color-secondary'', tone (secondaryPalette scheme) 80),
      (''--md-sys-color-secondary-container'', tone (secondaryPalette scheme) 30),
      (''--md-sys-color-secondary-fixed'', tone (secondaryPalette scheme) 90),
      (''--md-sys-color-secondary-fixed-dim'', tone (secondaryPalette scheme) 80),
      (''--md-sys-color-shadow'', tone (neutralPalette scheme) 0),
      (''--md-sys-color-surface'', tone (neutralPalette scheme) 6),
      (''--md-sys-color-surface-bright'', tone (neutralPalette scheme) 24),
      (''--md-sys-color-surface-container'', tone (neutralPalette scheme) 12),
      (''--md-sys-color-surface-container-high'', tone (neutralPalette scheme) 17),
      (''--md-sys-color-surface-container-highest'', tone (neutralPalette scheme) 22),
      (''--md-sys-color-surface-container-low'', tone (neutralPalette scheme) 10),
      (''--md-sys-color-surface-container-lowest'', tone (neutralPalette scheme) 4),
      (''--md-sys-color-surface-dim'', tone (neutralPalette scheme) 6),
      (''--md-sys-color-surface-tint'', tone (primaryPalette scheme) 80),
      (''--md-sys-color-surface-variant'', tone (neutralVariantPalette scheme) 30),
      (''--md-sys-color-tertiary'', tone (tertiaryPalette scheme) 80),
      (''--md-sys-color-tertiary-container'', tone (tertiaryPalette scheme) 30),
      (''--md-sys-color-tertiary-fixed'', tone (tertiaryPalette scheme) 90),
      (''--md-sys-color-tertiary-fixed-dim'', tone (tertiaryPalette scheme) 80)]"

definition hexEntries ::
  "('hct, 'w) stateful_engine \<Rightarrow> (string \<times> int) list \<Rightarrow> 'w \<Rightarrow> (string \<times> string) list \<times> 'w" where
  "hexEntries eng table =
     mapState (\<lambda>(k, argb) w. case st_hexFromArgb eng argb w of (v, w1) \<Rightarrow> ((k, v), w1)) table"

definition getThemeTokens_role_st ::
  "('hct, 'w) stateful_engine \<Rightarrow> MaterialTheme \<Rightarrow> bool \<Rightarrow> 'w \<Rightarrow> TokenMap \<times> 'w" where
  "getThemeTokens_role_st eng theme isDark w =
     (let scheme = (if isDark then dark (schemes theme) else light (schemes theme))
      in case hexEntries eng (roleArgbs scheme) w of
           (entries, w1) \<Rightarrow> (new_Map entries, w1))"

text \<open>Both tables are built, the light one first, before the mode is looked at.\<close>

definition getThemeTokens_tone_st ::
  "('hct, 'w) stateful_engine \<Rightarrow> MaterialTheme \<Rightarrow> bool \<Rightarrow> 'w \<Rightarrow> TokenMap \<times> 'w" where
  "getThemeTokens_tone_st eng theme isDark w =
     (let scheme = (if isDark then dark (schemes theme) else light (schemes theme))
      in case hexEntries eng (lightArgbs scheme) w of
           (lightList, w1) \<Rightarrow>
             (case hexEntries eng (darkArgbs scheme) w1 of
                (darkList, w2) \<Rightarrow>
                  (if \<not> isDark then new_Map lightList
                   else new_Map (Map_entries (new_Map lightList) @ Map_entries (new_Map darkList)),
                   w2)))"

subsection \<open>The composed pipeline\<close>

definition tokensFor_role_st ::
  "('hct, 'w) stateful_engine \<Rightarrow> int \<Rightarrow> Variant \<Rightarrow> real \<Rightarrow> int CustomColor list \<Rightarrow> bool
    \<Rightarrow> (TokenMap, 'w) call" where
  "tokensFor_role_st eng src vnt contrastLevel ccs isDark =
     bind_call (createMaterialTheme_st eng src vnt contrastLevel ccs) (\<lambda>theme w.
       case getThemeTokens_role_st eng theme isDark w of (tokens, w1) \<Rightarrow> (Inr tokens, w1))"

definition tokensFor_tone_st ::
  "('hct, 'w) stateful_engine \<Rightarrow> int \<Rightarrow> Variant \<Rightarrow> real \<Rightarrow> int CustomColor list \<Rightarrow> bool
    \<Rightarrow> (TokenMap, 'w) call" where
  "tokensFor_tone_st eng src vnt contrastLevel ccs isDark =
     bind_call (createMaterialTheme_st eng src vnt contrastLevel ccs) (\<lambda>theme w.
       case getThemeTokens_tone_st eng theme isDark w of (tokens, w1) \<Rightarrow> (Inr tokens, w1))"

subsection \<open>Engines whose answers do not depend on the state\<close>

text \<open>
  A call has a fixed answer when its answer is the same in every state; it may still change
  the state.  \<open>engineAnswersFixed\<close> says so of every entry point at every argument.
\<close>

definition answerFixed :: "('w \<Rightarrow> 'a \<times> 'w) \<Rightarrow> bool" where
  "answerFixed m = (\<forall>w w'. fst (m w) = fst (m w'))"

definition stateful_constructors ::
  "('hct, 'w) stateful_engine \<Rightarrow> ('hct \<Rightarrow> bool \<Rightarrow> real \<Rightarrow> (DynamicScheme, 'w) call) list" where
  "stateful_constructors eng =
     [st_SchemeMonochrome eng, st_SchemeNeutral eng, st_SchemeTonalSpot eng,
      st_SchemeVibrant eng, st_SchemeExpressive eng, st_SchemeFidelity eng,
      st_SchemeContent eng, st_SchemeRainbow eng, st_SchemeFruitSalad eng]"

definition engineAnswersFixed :: "('hct, 'w) stateful_engine \<Rightarrow> bool" where
  "engineAnswersFixed eng =
     ((\<forall>argb. answerFixed (st_hexFromArgb eng argb)) \<and>
      (\<forall>argb. answerFixed (st_Hct_fromInt eng argb)) \<and>
      (\<forall>src c. answerFixed (st_customColor eng src c)) \<and>
      (\<forall>ctor \<in> set (stateful_constructors eng).
         \<forall>hct isDark contrastLevel. answerFixed (ctor hct isDark contrastLevel)))"

text \<open>
  An engine that reads its behaviour off the state and never changes the state, and, as the
  case with no state at all, the engine of the sections above.
\<close>

definition reading :: "('w \<Rightarrow> 'hct engine) \<Rightarrow> ('hct, 'w) stateful_engine" where
  "reading E =
     \<lparr>st_hexFromArgb = (\<lambda>argb w. (hexFromArgb (E w) argb, w)),
      st_Hct_fromInt = (\<lambda>argb w. (Hct_fromInt (E w) argb, w)),
      st_customColor = (\<lambda>src c w. (customColor (E w) src c, w)),
      st_SchemeContent = (\<lambda>hct isDark contrastLevel w. (SchemeContent (E w) hct isDark contrastLevel, w)),
      st_SchemeExpressive = (\<lambda>hct isDark contrastLevel w. (SchemeExpressive (E w) hct isDark contrastLevel, w)),
      st_SchemeFidelity = (\<lambda>hct isDark contrastLevel w. (SchemeFidelity (E w) hct isDark contrastLevel, w)),
      st_SchemeFruitSalad = (\<lambda>hct isDark contrastLevel w. (SchemeFruitSalad (E w) hct isDark contrastLevel, w)),
      st_SchemeMonochrome = (\<lambda>hct isDark contrastLevel w. (SchemeMonochrome (E w) hct isDark contrastLevel, w)),
      st_SchemeNeutral = (\<lambda>hct isDark contrastLevel w. (SchemeNeutral (E w) hct isDark contrastLevel, w)),
      st_SchemeRainbow = (\<lambda>hct isDark contrastLevel w. (SchemeRainbow (E w) hct isDark contrastLevel, w)),
      st_SchemeTonalSpot = (\<lambda>hct isDark contrastLevel w. (SchemeTonalSpot (E w) hct isDark contrastLevel, w)),
      st_SchemeVibrant = (\<lambda>hct isDark contrastLevel w. (SchemeVibrant (E w) hct isDark contrastLevel, w))\<rparr>"

definition stateless :: "'hct engine \<Rightarrow> ('hct, 'w) stateful_engine" where
  "stateless eng = reading (\<lambda>w. eng)"

text \<open>
  Two engines with a state to run the functions on.  \<open>counting_engine\<close> answers as
  \<open>demo_engine\<close> does and counts its calls in the state.  \<open>drifting_engine\<close> prints a
  colour shifted by the state: its answers are not fixed.
\<close>

definition counting_engine :: "(int, nat) stateful_engine" where
  "counting_engine =
     \<lparr>st_hexFromArgb = (\<lambda>argb n. (hexFromArgb demo_engine argb, Suc n)),
      st_Hct_fromInt = (\<lambda>argb n. (Hct_fromInt demo_engine argb, Suc n)),
      st_customColor = (\<lambda>src c n. (customColor demo_engine src c, Suc n)),
      st_SchemeContent = (\<lambda>hct isDark contrastLevel n. (SchemeContent demo_engine hct isDark contrastLevel, Suc n)),
      st_SchemeExpressive = (\<lambda>hct isDark contrastLevel n. (SchemeExpressive demo_engine hct isDark contrastLevel, Suc n)),
      st_SchemeFidelity = (\<lambda>hct isDark contrastLevel n. (SchemeFidelity demo_engine hct isDark contrastLevel, Suc n)),
      st_SchemeFruitSalad = (\<lambda>hct isDark contrastLevel n. (SchemeFruitSalad demo_engine hct isDark contrastLevel, Suc n)),
      st_SchemeMonochrome = (\<lambda>hct isDark contrastLevel n. (SchemeMonochrome demo_engine hct isDark contrastLevel, Suc n)),
      st_SchemeNeutral = (\<lambda>hct isDark contrastLevel n. (SchemeNeutral demo_engine hct isDark contrastLevel, Suc n)),
      st_SchemeRainbow = (\<lambda>hct isDark contrastLevel n. (SchemeRainbow demo_engine hct isDark contrastLevel, Suc n)),
      st_SchemeTonalSpot = (\<lambda>hct isDark contrastLevel n. (SchemeTonalSpot demo_engine hct isDark contrastLevel, Suc n)),
      st_SchemeVibrant = (\<lambda>hct isDark contrastLevel n. (SchemeVibrant demo_engine hct isDark contrastLevel, Suc n))\<rparr>"

definition drifting_engine :: "(int, nat) stateful_engine" where
  "drifting_engine =
     reading (\<lambda>n. demo_engine\<lparr>hexFromArgb := (\<lambda>argb. demo_hexFromArgb (argb + int n))\<rparr>)"

section \<open>The theme builder: proofs\<close>

lemmas Variant_defs =
  MONOCHROME_def NEUTRAL_def TONAL_SPOT_def VIBRANT_def EXPRESSIVE_def
  FIDELITY_def CONTENT_def RAINBOW_def FRUIT_SALAD_def

lemma mapResult_Inr_iff:
  "mapResult f xs = Inr ys \<longleftrightarrow> list_all2 (\<lambda>x y. f x = Inr y) xs ys"
proof (induction xs arbitrary: ys)
  case Nil
  then show ?case by auto
next
  case (Cons x xs)
  show ?case
  proof (cases ys)
    case Nil
    then show ?thesis by (simp split: sum.splits)
  next
    case (Cons y ys')
    have "mapResult f (x # xs) = Inr (y # ys') \<longleftrightarrow> f x = Inr y \<and> mapResult f xs = Inr ys'"
      by (auto split: sum.splits)
    then show ?thesis using Cons Cons.IH by simp
  qed
qed

lemma mapResult_returns:
  "list_all (\<lambda>x. \<not> isl (f x)) xs \<Longrightarrow> \<exists>ys. mapResult f xs = Inr ys"
  by (induction xs) (auto split: sum.splits)

lemma schemePair_Inr_iff:
  "schemePair ctor eng src c = Inr (l, d) \<longleftrightarrow>
     newScheme ctor eng src False c = Inr l \<and> newScheme ctor eng src True c = Inr d"
  by (auto simp: schemePair_def split: sum.splits)

lemma schemePair_fromInt_throws:
  "Hct_fromInt eng src = Inl e \<Longrightarrow> schemePair ctor eng src c = Inl e"
  by (simp add: schemePair_def newScheme_def)

lemma schemePair_returns:
  assumes "Hct_fromInt eng src = Inr hct"
    and "\<not> isl (ctor hct False c)" and "\<not> isl (ctor hct True c)"
  shows "\<exists>p. schemePair ctor eng src c = Inr p"
  using assms by (auto simp: schemePair_def newScheme_def split: sum.splits)

lemma createMaterialTheme_fromInt_throws:
  "Hct_fromInt eng src = Inl e \<Longrightarrow> createMaterialTheme eng src vnt c ccs = Inl e"
  by (simp add: createMaterialTheme_def schemePair_fromInt_throws)

lemma switchVariant_cases:
  "switchVariant eng src vnt c initial = Inr initial \<or>
   (\<exists>ctor \<in> set (schemeConstructors eng). switchVariant eng src vnt c initial = schemePair ctor eng src c)"
  by (simp add: switchVariant_def schemeConstructors_def)

lemma createMaterialTheme_returns:
  assumes "engineReturns eng src c ccs"
  shows "\<exists>theme. createMaterialTheme eng src vnt c ccs = Inr theme"
proof -
  from assms obtain hct where h: "Hct_fromInt eng src = Inr hct"
    and ctors: "\<forall>ctor \<in> set (schemeConstructors eng).
                  \<not> isl (ctor hct False c) \<and> \<not> isl (ctor hct True c)"
    and cols: "list_all (\<lambda>x. \<not> isl (customColor eng src x)) ccs"
    by (auto simp: engineReturns_def list_all_iff split: sum.splits)
  have pair: "\<exists>p. schemePair ctor eng src c = Inr p" if "ctor \<in> set (schemeConstructors eng)" for ctor
    using schemePair_returns [OF h] ctors that by blast
  have "SchemeTonalSpot eng \<in> set (schemeConstructors eng)"
    by (simp add: schemeConstructors_def)
  then obtain initial where i: "schemePair (SchemeTonalSpot eng) eng src c = Inr initial"
    using pair by blast
  obtain l d where s: "switchVariant eng src vnt c initial = Inr (l, d)"
    using switchVariant_cases [of eng src vnt c initial] pair by (metis surj_pair)
  obtain groups where g: "mapResult (customColor eng src) ccs = Inr groups"
    using mapResult_returns [OF cols] by blast
  show ?thesis by (simp add: createMaterialTheme_def i s g)
qed

lemma createMaterialTheme_Inr_fields:
  assumes "createMaterialTheme eng src vnt contrastLevel ccs = Inr theme"
  shows "source theme = src" and "variant theme = vnt"
    and "mapResult (customColor eng src) ccs = Inr (customColors theme)"
  using assms unfolding createMaterialTheme_def
  by (auto split: sum.splits prod.splits)


lemma demo_engineReturns: "engineReturns demo_engine src c ccs"
  by (simp add: engineReturns_def demo_engine_def schemeConstructors_def demo_customColor_def
        list_all_iff Let_def)

lemma demo_engine_builds:
  "createMaterialTheme demo_engine src vnt c ccs
     = Inr (projr (createMaterialTheme demo_engine src vnt c ccs))"
  using createMaterialTheme_returns [OF demo_engineReturns] by (metis sum.sel(2))

text \<open>
  Claim C1, as amended.  The builder has no range check on the seed and raises no error of
  its own.  For every integer seed, inside \<open>[0, 0xFFFFFF]\<close> or not, its first action is the
  engine call \<^verbatim>\<open>Hct.fromInt(seed)\<close>: if that call throws, the builder fails with the
  engine's error; if the engine's calls return, the builder returns a theme whose
  \<open>source\<close> is the seed.
\<close>

theorem createMaterialTheme_no_seed_check:
  "(\<forall>e. Hct_fromInt eng src = Inl e \<longrightarrow> createMaterialTheme eng src vnt contrastLevel ccs = Inl e) \<and>
   (engineReturns eng src contrastLevel ccs \<longrightarrow>
      (\<exists>theme. createMaterialTheme eng src vnt contrastLevel ccs = Inr theme \<and> source theme = src))"
  using createMaterialTheme_fromInt_throws createMaterialTheme_returns
    createMaterialTheme_Inr_fields(1) by metis

theorem createMaterialTheme_no_seed_check_witness:
  "createMaterialTheme strict_engine (- 1) TONAL_SPOT 0 [] = Inl (Error ''color out of range'') \<and>
   \<not> isl (createMaterialTheme demo_engine (- 1) TONAL_SPOT 0 []) \<and>
   source (projr (createMaterialTheme demo_engine (- 1) TONAL_SPOT 0 [])) = - 1"
proof -
  have a: "Hct_fromInt strict_engine (- 1) = Inl (Error ''color out of range'')"
    by (simp add: strict_engine_def)
  have b: "engineReturns demo_engine (- 1) 0 []"
    by (simp add: engineReturns_def demo_engine_def schemeConstructors_def)
  from createMaterialTheme_no_seed_check [of strict_engine "- 1" TONAL_SPOT 0 "[]"] a
  have "createMaterialTheme strict_engine (- 1) TONAL_SPOT 0 [] = Inl (Error ''color out of range'')"
    by blast
  moreover from createMaterialTheme_no_seed_check [of demo_engine "- 1" TONAL_SPOT 0 "[]"] b
  obtain theme where "createMaterialTheme demo_engine (- 1) TONAL_SPOT 0 [] = Inr theme"
    and "source theme = - 1" by blast
  ultimately show ?thesis by simp
qed

text \<open>
  Claim C1 as stated fails: with an engine whose calls return, the builder returns a theme
  for the seeds \<open>-1\<close> and \<open>0x1000000\<close>.
\<close>

theorem createMaterialTheme_rejects_invalid_seed_counterexample:
  "\<not> isl (createMaterialTheme demo_engine (- 1) TONAL_SPOT 0 []) \<and>
   \<not> isl (createMaterialTheme demo_engine 0x1000000 TONAL_SPOT 0 [])"
  by (simp add: createMaterialTheme_def schemePair_def newScheme_def switchVariant_def
        demo_engine_def Variant_defs)










section \<open>The token projector: proofs\<close>

lemma foldl_Map_set_append:
  "distinct (map fst (m @ es)) \<Longrightarrow> foldl (\<lambda>m (k, v). Map_set k v m) m es = m @ es"
proof (induction es arbitrary: m)
  case Nil
  then show ?case by simp
next
  case (Cons e es)
  obtain k v where e: "e = (k, v)" by (cases e)
  have fresh: "Map_set k v m = m @ [(k, v)]" if "k \<notin> fst ` set m" for m :: "('a \<times> 'b) list"
    using that by (induction m) auto
  from Cons.prems e have "k \<notin> fst ` set m" by auto
  then have "Map_set k v m = m @ [(k, v)]" by (rule fresh)
  moreover from Cons.prems e have "distinct (map fst ((m @ [(k, v)]) @ es))" by simp
  ultimately show ?case using Cons.IH [of "m @ [(k, v)]"] e by simp
qed

lemma new_Map_distinct: "distinct (map fst es) \<Longrightarrow> new_Map es = es"
  using foldl_Map_set_append [of "[]" es] by (simp add: new_Map_def)

lemma foldl_Map_set_Cons:
  "k0 \<notin> fst ` set es \<Longrightarrow>
     foldl (\<lambda>m (k, v). Map_set k v m) ((k0, v0) # m) es
       = (k0, v0) # foldl (\<lambda>m (k, v). Map_set k v m) m es"
  by (induction es arbitrary: m) auto

lemma foldl_Map_set_override:
  "distinct (map fst m) \<Longrightarrow> map fst es = map fst m \<Longrightarrow>
     foldl (\<lambda>m (k, v). Map_set k v m) m es = es"
proof (induction m arbitrary: es)
  case Nil
  then show ?case by simp
next
  case (Cons x m)
  obtain k0 v0 where x: "x = (k0, v0)" by (cases x)
  from Cons.prems(2) obtain w es' where es: "es = (k0, w) # es'" and keys: "map fst es' = map fst m"
    using x by (cases es) auto
  from Cons.prems(1) x keys have notin: "k0 \<notin> fst ` set es'"
    by (metis distinct.simps(2) fst_conv list.simps(9) set_map)
  from Cons.prems(1) have d: "distinct (map fst m)" by simp
  have "foldl (\<lambda>m (k, v). Map_set k v m) (x # m) es
          = foldl (\<lambda>m (k, v). Map_set k v m) ((k0, w) # m) es'"
    by (simp add: x es)
  also have "\<dots> = (k0, w) # foldl (\<lambda>m (k, v). Map_set k v m) m es'"
    by (rule foldl_Map_set_Cons [OF notin])
  also have "\<dots> = (k0, w) # es'"
    using Cons.IH [OF d keys] by simp
  finally show ?case by (simp add: es)
qed

lemma new_Map_override:
  assumes "distinct (map fst m)" and "map fst es = map fst m"
  shows "new_Map (m @ es) = es"
proof -
  have "new_Map (m @ es) = foldl (\<lambda>m (k, v). Map_set k v m) (new_Map m) es"
    by (simp add: new_Map_def)
  then show ?thesis
    using assms by (simp add: new_Map_distinct foldl_Map_set_override)
qed

lemma length_canonicalTokenNames: "length canonicalTokenNames = 49"
  by (simp add: canonicalTokenNames_def)

lemma distinct_canonicalTokenNames: "distinct canonicalTokenNames"
  by (simp add: canonicalTokenNames_def)

lemma distinct_tokenKeys: "distinct (map tokenKey canonicalTokenNames)"
  by (simp add: distinct_map distinct_canonicalTokenNames inj_on_def tokenKey_def)

lemma keys_roleEntries: "map fst (roleEntries eng scheme) = map tokenKey canonicalTokenNames"
  by (simp add: roleEntries_def canonicalTokenNames_def tokenKey_def)

lemma keys_lightEntries: "map fst (lightEntries eng scheme) = map tokenKey canonicalTokenNames"
  by (simp add: lightEntries_def canonicalTokenNames_def tokenKey_def)

lemma keys_darkEntries: "map fst (darkEntries eng scheme) = map tokenKey canonicalTokenNames"
  by (simp add: darkEntries_def canonicalTokenNames_def tokenKey_def)

lemma roleMap_eq: "new_Map (roleEntries eng scheme) = roleEntries eng scheme"
  by (simp add: new_Map_distinct keys_roleEntries distinct_tokenKeys)

lemma lightColors_eq: "lightColors eng scheme = lightEntries eng scheme"
  by (simp add: lightColors_def new_Map_distinct keys_lightEntries distinct_tokenKeys)

lemma darkColors_eq: "darkColors eng scheme = darkEntries eng scheme"
  by (simp add: darkColors_def new_Map_distinct keys_darkEntries distinct_tokenKeys)

lemma getThemeTokens_role_eq:
  "getThemeTokens_role eng theme isDark
     = roleEntries eng (if isDark then dark (schemes theme) else light (schemes theme))"
  by (simp add: getThemeTokens_role_def roleMap_eq)

lemma getThemeTokens_tone_light:
  "getThemeTokens_tone eng theme False = lightEntries eng (light (schemes theme))"
  by (simp add: getThemeTokens_tone_def lightColors_eq)

lemma getThemeTokens_tone_dark:
  "getThemeTokens_tone eng theme True = darkEntries eng (dark (schemes theme))"
proof -
  have "new_Map (lightEntries eng (dark (schemes theme)) @ darkEntries eng (dark (schemes theme)))
          = darkEntries eng (dark (schemes theme))"
    by (rule new_Map_override) (simp_all add: keys_lightEntries keys_darkEntries distinct_tokenKeys)
  then show ?thesis
    by (simp add: getThemeTokens_tone_def Map_entries_def lightColors_eq darkColors_eq)
qed

lemma keys_getThemeTokens_role:
  "map fst (getThemeTokens_role eng theme isDark) = map tokenKey canonicalTokenNames"
  by (simp add: getThemeTokens_role_eq keys_roleEntries)

lemma keys_getThemeTokens_tone:
  "map fst (getThemeTokens_tone eng theme isDark) = map tokenKey canonicalTokenNames"
  by (cases isDark)
    (simp_all add: getThemeTokens_tone_light getThemeTokens_tone_dark keys_lightEntries
       keys_darkEntries)

lemma hex_roleEntries:
  "\<forall>argb. isHexColor (hexFromArgb eng argb) \<Longrightarrow> list_all (\<lambda>(k, v). isHexColor v) (roleEntries eng scheme)"
  by (simp add: roleEntries_def)

lemma hex_lightEntries:
  "\<forall>argb. isHexColor (hexFromArgb eng argb) \<Longrightarrow> list_all (\<lambda>(k, v). isHexColor v) (lightEntries eng scheme)"
  by (simp add: lightEntries_def)

lemma hex_darkEntries:
  "\<forall>argb. isHexColor (hexFromArgb eng argb) \<Longrightarrow> list_all (\<lambda>(k, v). isHexColor v) (darkEntries eng scheme)"
  by (simp add: darkEntries_def)

lemma hex_getThemeTokens_role:
  "\<forall>argb. isHexColor (hexFromArgb eng argb) \<Longrightarrow>
     list_all (\<lambda>(k, v). isHexColor v) (getThemeTokens_role eng theme isDark)"
  by (simp add: getThemeTokens_role_eq hex_roleEntries)

lemma hex_getThemeTokens_tone:
  "\<forall>argb. isHexColor (hexFromArgb eng argb) \<Longrightarrow>
     list_all (\<lambda>(k, v). isHexColor v) (getThemeTokens_tone eng theme isDark)"
  by (cases isDark)
    (simp_all add: getThemeTokens_tone_light getThemeTokens_tone_dark hex_lightEntries
       hex_darkEntries)

lemma hexDigits_nth: "0 \<le> d \<Longrightarrow> d < 16 \<Longrightarrow> isHexDigit (hexDigits ! nat d)"
proof -
  assume "0 \<le> d" "d < 16"
  then have "nat d < length hexDigits" by (simp add: hexDigits_def)
  then have "hexDigits ! nat d \<in> set hexDigits" by (rule nth_mem)
  then show ?thesis by (auto simp: hexDigits_def isHexDigit_def)
qed

lemma hexByte_ok: "0 \<le> b \<Longrightarrow> b < 256 \<Longrightarrow> list_all isHexDigit (hexByte b) \<and> length (hexByte b) = 2"
  by (simp add: hexByte_def hexDigits_nth)

lemma demo_hexFromArgb_ok: "isHexColor (demo_hexFromArgb argb)"
proof -
  have "list_all isHexDigit (hexByte (argb div 65536 mod 256)) \<and> length (hexByte (argb div 65536 mod 256)) = 2"
    by (rule hexByte_ok) simp_all
  moreover have "list_all isHexDigit (hexByte (argb div 256 mod 256)) \<and> length (hexByte (argb div 256 mod 256)) = 2"
    by (rule hexByte_ok) simp_all
  moreover have "list_all isHexDigit (hexByte (argb mod 256)) \<and> length (hexByte (argb mod 256)) = 2"
    by (rule hexByte_ok) simp_all
  ultimately show ?thesis by (simp add: isHexColor_def demo_hexFromArgb_def)
qed

lemma demo_engine_hex: "\<forall>argb. isHexColor (hexFromArgb demo_engine argb)"
  by (simp add: demo_engine_def demo_hexFromArgb_ok)

text \<open>
  Claim C2, as amended.  For every theme (so for every seed, variant and contrast level the
  builder returns one for) and for both modes, the token map of either projection has as its
  keys exactly the 49 canonical token names, in the order of the list, each behind the prefix
  \<^verbatim>\<open>--md-sys-color-\<close>; the keys are pairwise distinct, so the dark-mode map is a complete
  49-entry map with the key list of the light-mode map.  Every value is an output of
  \<^verbatim>\<open>hexFromArgb\<close>, hence a \<^verbatim>\<open>#\<close> and six hex digits whenever the engine prints colours so.
\<close>

theorem getThemeTokens_total:
  "map fst (getThemeTokens_role eng theme isDark) = map tokenKey canonicalTokenNames \<and>
   map fst (getThemeTokens_tone eng theme isDark) = map tokenKey canonicalTokenNames \<and>
   length canonicalTokenNames = 49 \<and>
   distinct (map tokenKey canonicalTokenNames) \<and>
   ((\<forall>argb. isHexColor (hexFromArgb eng argb)) \<longrightarrow>
      list_all (\<lambda>(k, v). isHexColor v) (getThemeTokens_role eng theme isDark) \<and>
      list_all (\<lambda>(k, v). isHexColor v) (getThemeTokens_tone eng theme isDark))"
  using keys_getThemeTokens_role keys_getThemeTokens_tone length_canonicalTokenNames
    distinct_tokenKeys hex_getThemeTokens_role hex_getThemeTokens_tone
  by blast

theorem getThemeTokens_total_witness:
  "list_all (\<lambda>(k, v). isHexColor v)
     (getThemeTokens_role demo_engine
        (projr (createMaterialTheme demo_engine 0xFF006494 TONAL_SPOT 0 [])) True) \<and>
   list_all (\<lambda>(k, v). isHexColor v)
     (getThemeTokens_tone demo_engine
        (projr (createMaterialTheme demo_engine 0xFF006494 TONAL_SPOT 0 [])) True) \<and>
   map fst (getThemeTokens_tone demo_engine
        (projr (createMaterialTheme demo_engine 0xFF006494 TONAL_SPOT 0 [])) True)
     = map fst (getThemeTokens_tone demo_engine
        (projr (createMaterialTheme demo_engine 0xFF006494 TONAL_SPOT 0 [])) False)"
proof -
  define t where "t = projr (createMaterialTheme demo_engine 0xFF006494 TONAL_SPOT 0 [])"
  note d = getThemeTokens_total [where eng = demo_engine and theme = t and isDark = True]
  note l = getThemeTokens_total [where eng = demo_engine and theme = t and isDark = False]
  from d demo_engine_hex
  have "list_all (\<lambda>(k, v). isHexColor v) (getThemeTokens_role demo_engine t True) \<and>
        list_all (\<lambda>(k, v). isHexColor v) (getThemeTokens_tone demo_engine t True)"
    by (elim conjE) (rule mp)
  moreover from d l have "map fst (getThemeTokens_tone demo_engine t True)
      = map fst (getThemeTokens_tone demo_engine t False)"
    by (elim conjE) (rule trans, assumption, rule sym, assumption)
  ultimately show ?thesis unfolding t_def by blast
qed

text \<open>
  Claim C2 as stated fails on the number of entries: the dark-mode map of either projection
  has 49 entries with pairwise distinct keys, not 48.
\<close>

theorem getThemeTokens_48_entries_counterexample:
  "length (getThemeTokens_role demo_engine
        (projr (createMaterialTheme demo_engine 0xFF006494 TONAL_SPOT 0 [])) True) = 49 \<and>
   length (getThemeTokens_tone demo_engine
        (projr (createMaterialTheme demo_engine 0xFF006494 TONAL_SPOT 0 [])) True) = 49 \<and>
   distinct (map fst (getThemeTokens_tone demo_engine
        (projr (createMaterialTheme demo_engine 0xFF006494 TONAL_SPOT 0 [])) True))"
proof -
  define t where "t = projr (createMaterialTheme demo_engine 0xFF006494 TONAL_SPOT 0 [])"
  have "length (map fst (getThemeTokens_role demo_engine t True)) = 49"
    by (simp only: keys_getThemeTokens_role length_map length_canonicalTokenNames)
  then have a: "length (getThemeTokens_role demo_engine t True) = 49"
    by (simp only: length_map)
  have "length (map fst (getThemeTokens_tone demo_engine t True)) = 49"
    by (simp only: keys_getThemeTokens_tone length_map length_canonicalTokenNames)
  then have b: "length (getThemeTokens_tone demo_engine t True) = 49"
    by (simp only: length_map)
  have c: "distinct (map fst (getThemeTokens_tone demo_engine t True))"
    by (simp only: keys_getThemeTokens_tone distinct_tokenKeys)
  show ?thesis using a b c unfolding t_def by blast
qed

lemma isToneOf_intros:
  "0 \<le> n \<Longrightarrow> n \<le> 100 \<Longrightarrow> isToneOf eng scheme (hexFromArgb eng (tone (primaryPalette scheme) n))"
  "0 \<le> n \<Longrightarrow> n \<le> 100 \<Longrightarrow> isToneOf eng scheme (hexFromArgb eng (tone (secondaryPalette scheme) n))"
  "0 \<le> n \<Longrightarrow> n \<le> 100 \<Longrightarrow> isToneOf eng scheme (hexFromArgb eng (tone (tertiaryPalette scheme) n))"
  "0 \<le> n \<Longrightarrow> n \<le> 100 \<Longrightarrow> isToneOf eng scheme (hexFromArgb eng (tone (neutralPalette scheme) n))"
  "0 \<le> n \<Longrightarrow> n \<le> 100 \<Longrightarrow> isToneOf eng scheme (hexFromArgb eng (tone (neutralVariantPalette scheme) n))"
  "0 \<le> n \<Longrightarrow> n \<le> 100 \<Longrightarrow> isToneOf eng scheme (hexFromArgb eng (tone (errorPalette scheme) n))"
  unfolding isToneOf_def palettes_def by fastforce+

lemma tones_lightEntries: "list_all (\<lambda>(k, v). isToneOf eng scheme v) (lightEntries eng scheme)"
  by (simp add: lightEntries_def isToneOf_intros)

lemma tones_darkEntries: "list_all (\<lambda>(k, v). isToneOf eng scheme v) (darkEntries eng scheme)"
  by (simp add: darkEntries_def isToneOf_intros)

lemma primary_lightEntries:
  "Map_get (lightEntries eng scheme) ''--md-sys-color-primary''
     = Some (hexFromArgb eng (tone (primaryPalette scheme) 40))"
  by (simp add: Map_get_def lightEntries_def)

lemma primary_darkEntries:
  "Map_get (darkEntries eng scheme) ''--md-sys-color-primary''
     = Some (hexFromArgb eng (tone (primaryPalette scheme) 80))"
  by (simp add: Map_get_def darkEntries_def)

text \<open>
  Claim C5.  Under the tone-direct projection the light-mode map is the light table and the
  dark-mode map is the dark table, each read off the palettes of the selected scheme; every
  value is a tone stop between 0 and 100 of one of the six palettes of that scheme; the
  primary token is \<^verbatim>\<open>primaryPalette.tone(40)\<close> in light mode and
  \<^verbatim>\<open>primaryPalette.tone(80)\<close> in dark mode.
\<close>

theorem getThemeTokens_tone_table:
  "getThemeTokens_tone eng theme False = lightEntries eng (light (schemes theme)) \<and>
   getThemeTokens_tone eng theme True = darkEntries eng (dark (schemes theme)) \<and>
   list_all (\<lambda>(k, v). isToneOf eng (light (schemes theme)) v) (getThemeTokens_tone eng theme False) \<and>
   list_all (\<lambda>(k, v). isToneOf eng (dark (schemes theme)) v) (getThemeTokens_tone eng theme True) \<and>
   Map_get (getThemeTokens_tone eng theme False) ''--md-sys-color-primary''
     = Some (hexFromArgb eng (tone (primaryPalette (light (schemes theme))) 40)) \<and>
   Map_get (getThemeTokens_tone eng theme True) ''--md-sys-color-primary''
     = Some (hexFromArgb eng (tone (primaryPalette (dark (schemes theme))) 80))"
  by (simp only: getThemeTokens_tone_light getThemeTokens_tone_dark tones_lightEntries
        tones_darkEntries primary_lightEntries primary_darkEntries simp_thms)

theorem getThemeTokens_tone_table_witness:
  "Map_get (getThemeTokens_tone demo_engine
       (projr (createMaterialTheme demo_engine 0xFF006494 TONAL_SPOT 0 [])) False)
     ''--md-sys-color-primary'' = Some ''#e6e6e6'' \<and>
   Map_get (getThemeTokens_tone demo_engine
       (projr (createMaterialTheme demo_engine 0xFF006494 TONAL_SPOT 0 [])) True)
     ''--md-sys-color-primary'' = Some ''#363636'' \<and>
   list_all (\<lambda>(k, v). isToneOf demo_engine
       (dark (schemes (projr (createMaterialTheme demo_engine 0xFF006494 TONAL_SPOT 0 [])))) v)
     (getThemeTokens_tone demo_engine
       (projr (createMaterialTheme demo_engine 0xFF006494 TONAL_SPOT 0 [])) True)"
proof -
  define t where "t = projr (createMaterialTheme demo_engine 0xFF006494 TONAL_SPOT 0 [])"
  have "createMaterialTheme demo_engine 0xFF006494 TONAL_SPOT 0 []
             = Inr \<lparr>source = 0xFF006494, variant = TONAL_SPOT,
                    schemes = \<lparr>light = demo_scheme 2 0x006494 False,
                               dark = demo_scheme 2 0x006494 True\<rparr>,
                    customColors = []\<rparr>"
    by (simp add: createMaterialTheme_def schemePair_def newScheme_def switchVariant_def
          demo_engine_def Variant_defs)
  then have sl: "light (schemes t) = demo_scheme 2 0x006494 False"
    and sd: "dark (schemes t) = demo_scheme 2 0x006494 True"
    by (simp_all add: t_def)
  have l: "hexFromArgb demo_engine (tone (primaryPalette (demo_scheme 2 0x006494 False)) 40) = ''#e6e6e6''"
    by (simp add: demo_engine_def demo_scheme_def demo_tone_def demo_hexFromArgb_def hexByte_def
          hexDigits_def)
  have d: "hexFromArgb demo_engine (tone (primaryPalette (demo_scheme 2 0x006494 True)) 80) = ''#363636''"
    by (simp add: demo_engine_def demo_scheme_def demo_tone_def demo_hexFromArgb_def hexByte_def
          hexDigits_def)
  note th = getThemeTokens_tone_table [where eng = demo_engine and theme = t]
  from th have "Map_get (getThemeTokens_tone demo_engine t False) ''--md-sys-color-primary''
     = Some (hexFromArgb demo_engine (tone (primaryPalette (light (schemes t))) 40))"
    by (elim conjE)
  then have a: "Map_get (getThemeTokens_tone demo_engine t False) ''--md-sys-color-primary''
     = Some ''#e6e6e6''"
    by (simp only: sl l)
  from th have "Map_get (getThemeTokens_tone demo_engine t True) ''--md-sys-color-primary''
     = Some (hexFromArgb demo_engine (tone (primaryPalette (dark (schemes t))) 80))"
    by (elim conjE)
  then have b: "Map_get (getThemeTokens_tone demo_engine t True) ''--md-sys-color-primary''
     = Some ''#363636''"
    by (simp only: sd d)
  from th have c: "list_all (\<lambda>(k, v). isToneOf demo_engine (dark (schemes t)) v)
      (getThemeTokens_tone demo_engine t True)"
    by (elim conjE)
  show ?thesis using a b c unfolding t_def by blast
qed

text \<open>
  Claim C10, as amended.  In the tone-direct projection the map made of the light entries
  followed by the dark entries is the dark map itself, for every scheme; so the dark-mode
  result is \<open>darkColors\<close>, and every lookup in it is a lookup in \<open>darkColors\<close>.  The two
  tables have the same key list, of 49 keys.
\<close>

theorem getThemeTokens_tone_dark_is_darkColors:
  "new_Map (Map_entries (lightColors eng scheme) @ Map_entries (darkColors eng scheme))
     = darkColors eng scheme \<and>
   getThemeTokens_tone eng theme True = darkColors eng (dark (schemes theme)) \<and>
   (\<forall>k. Map_get (getThemeTokens_tone eng theme True) k
          = Map_get (darkColors eng (dark (schemes theme))) k) \<and>
   map fst (darkColors eng scheme) = map fst (lightColors eng scheme) \<and>
   length (darkColors eng scheme) = 49"
proof -
  have a: "new_Map (Map_entries (lightColors eng scheme) @ Map_entries (darkColors eng scheme))
     = darkColors eng scheme"
    unfolding Map_entries_def lightColors_eq darkColors_eq
    by (rule new_Map_override) (simp_all add: keys_lightEntries keys_darkEntries distinct_tokenKeys)
  have b: "getThemeTokens_tone eng theme True = darkColors eng (dark (schemes theme))"
    by (simp add: getThemeTokens_tone_dark darkColors_eq)
  have c: "map fst (darkColors eng scheme) = map fst (lightColors eng scheme)"
    by (simp add: lightColors_eq darkColors_eq keys_lightEntries keys_darkEntries)
  have "length (map fst (darkColors eng scheme)) = 49"
    by (simp only: darkColors_eq keys_darkEntries length_map length_canonicalTokenNames)
  then have d: "length (darkColors eng scheme) = 49" by (simp only: length_map)
  show ?thesis using a b c d by simp
qed

text \<open>
  Claim C10 as stated speaks of 48 keys: the dark table has 49 entries with pairwise distinct
  keys.
\<close>

theorem getThemeTokens_tone_dark_48_keys_counterexample:
  "length (darkColors demo_engine (demo_scheme 2 0x006494 True)) = 49 \<and>
   distinct (map fst (darkColors demo_engine (demo_scheme 2 0x006494 True))) \<and>
   length (getThemeTokens_tone demo_engine
     \<lparr>source = 0xFF006494, variant = TONAL_SPOT,
      schemes = \<lparr>light = demo_scheme 2 0x006494 False, dark = demo_scheme 2 0x006494 True\<rparr>,
      customColors = []\<rparr> True) = 49"
proof -
  have k: "map fst (darkColors demo_engine (demo_scheme 2 0x006494 True))
             = map tokenKey canonicalTokenNames"
    by (simp only: darkColors_eq keys_darkEntries)
  have "length (map fst (darkColors demo_engine (demo_scheme 2 0x006494 True))) = 49"
    by (simp only: k length_map length_canonicalTokenNames)
  then have a: "length (darkColors demo_engine (demo_scheme 2 0x006494 True)) = 49"
    by (simp only: length_map)
  have b: "distinct (map fst (darkColors demo_engine (demo_scheme 2 0x006494 True)))"
    by (simp only: k distinct_tokenKeys)
  have "getThemeTokens_tone demo_engine
     \<lparr>source = 0xFF006494, variant = TONAL_SPOT,
      schemes = \<lparr>light = demo_scheme 2 0x006494 False, dark = demo_scheme 2 0x006494 True\<rparr>,
      customColors = []\<rparr> True = darkColors demo_engine (demo_scheme 2 0x006494 True)"
    by (simp add: getThemeTokens_tone_dark darkColors_eq)
  then show ?thesis using a b by simp
qed

section \<open>The pipeline over an engine with state: proofs\<close>

lemma answerFixed_return: "answerFixed (\<lambda>w. (x, w))"
  by (simp add: answerFixed_def)

lemma answerFixed_bind:
  assumes m: "answerFixed m" and f: "\<And>x. answerFixed (f x)"
  shows "answerFixed (bind_call m f)"
  unfolding answerFixed_def
proof (intro allI)
  fix w w'
  obtain r w1 where a: "m w = (r, w1)" by (cases "m w")
  obtain r' w1' where b: "m w' = (r', w1')" by (cases "m w'")
  from m a b have eq: "r' = r" unfolding answerFixed_def by (metis fst_conv)
  show "fst (bind_call m f w) = fst (bind_call m f w')"
  proof (cases r)
    case (Inl e)
    then show ?thesis using a b eq by (simp add: bind_call_def)
  next
    case (Inr x)
    from f [of x] have "fst (f x w1) = fst (f x w1')" unfolding answerFixed_def by blast
    then show ?thesis using a b eq Inr by (simp add: bind_call_def)
  qed
qed

lemma mapCall_Cons_fun:
  "mapCall f (x # xs)
     = bind_call (f x) (\<lambda>y. bind_call (mapCall f xs) (\<lambda>ys w2. (Inr (y # ys), w2)))"
  by (rule ext) simp

lemma answerFixed_mapCall:
  assumes "\<And>x. answerFixed (f x)"
  shows "answerFixed (mapCall f xs)"
proof (induction xs)
  case Nil
  show ?case by (simp add: answerFixed_def)
next
  case (Cons x xs)
  show ?case
    unfolding mapCall_Cons_fun
    by (intro answerFixed_bind assms Cons.IH answerFixed_return)
qed

lemma answerFixed_mapState:
  assumes f: "\<And>x. answerFixed (f x)"
  shows "answerFixed (mapState f xs)"
  unfolding answerFixed_def
proof (intro allI)
  fix w w'
  show "fst (mapState f xs w) = fst (mapState f xs w')"
  proof (induction xs arbitrary: w w')
    case Nil
    show ?case by simp
  next
    case (Cons x xs)
    obtain y w1 where a: "f x w = (y, w1)" by (cases "f x w")
    obtain y' w1' where b: "f x w' = (y', w1')" by (cases "f x w'")
    from f [of x] a b have eq: "y' = y" unfolding answerFixed_def by (metis fst_conv)
    from Cons.IH [of w1 w1'] show ?case
      using a b eq by (auto split: prod.splits)
  qed
qed

lemma answerFixed_hexEntries:
  assumes "engineAnswersFixed eng"
  shows "answerFixed (hexEntries eng table)"
  unfolding hexEntries_def
proof (rule answerFixed_mapState)
  fix x :: "string \<times> int"
  obtain k argb where x: "x = (k, argb)" by (cases x)
  from assms have "answerFixed (st_hexFromArgb eng argb)"
    by (simp add: engineAnswersFixed_def)
  then show "answerFixed (case x of (k, argb) \<Rightarrow>
      \<lambda>w. case st_hexFromArgb eng argb w of (v, w1) \<Rightarrow> ((k, v), w1))"
    unfolding x answerFixed_def by (simp split: prod.splits) (metis fst_conv)
qed

lemma answerFixed_newScheme_st:
  assumes "engineAnswersFixed eng" and "ctor \<in> set (stateful_constructors eng)"
  shows "answerFixed (newScheme_st ctor eng src isDark c)"
  unfolding newScheme_st_def
  using assms by (intro answerFixed_bind) (simp_all add: engineAnswersFixed_def)

lemma answerFixed_schemePair_st:
  assumes "engineAnswersFixed eng" and "ctor \<in> set (stateful_constructors eng)"
  shows "answerFixed (schemePair_st ctor eng src c)"
  unfolding schemePair_st_def
  by (intro answerFixed_bind answerFixed_newScheme_st assms answerFixed_return)

lemma answerFixed_switchVariant_st:
  assumes "engineAnswersFixed eng"
  shows "answerFixed (switchVariant_st eng src vnt c initial)"
  unfolding switchVariant_st_def
  by (simp add: answerFixed_return answerFixed_schemePair_st [OF assms] stateful_constructors_def)

lemma answerFixed_createMaterialTheme_st:
  assumes "engineAnswersFixed eng"
  shows "answerFixed (createMaterialTheme_st eng src vnt c ccs)"
  unfolding createMaterialTheme_st_def
proof (intro answerFixed_bind)
  show "answerFixed (schemePair_st (st_SchemeTonalSpot eng) eng src c)"
    by (rule answerFixed_schemePair_st [OF assms]) (simp add: stateful_constructors_def)
next
  fix initial
  show "answerFixed (switchVariant_st eng src vnt c initial)"
    by (rule answerFixed_switchVariant_st [OF assms])
next
  fix initial and p :: "DynamicScheme \<times> DynamicScheme"
  obtain l d where p: "p = (l, d)" by (cases p)
  have mc: "answerFixed (mapCall (st_customColor eng src) ccs)"
    using assms by (intro answerFixed_mapCall) (simp add: engineAnswersFixed_def)
  show "answerFixed (case p of (lightScheme, darkScheme) \<Rightarrow>
          bind_call (mapCall (st_customColor eng src) ccs)
            (\<lambda>groups w. (Inr \<lparr>source = src, variant = vnt,
                schemes = \<lparr>light = lightScheme, dark = darkScheme\<rparr>,
                customColors = groups\<rparr>, w)))"
    unfolding p by (simp, intro answerFixed_bind mc answerFixed_return)
qed

lemma answerFixed_getThemeTokens_role_st:
  assumes "engineAnswersFixed eng"
  shows "answerFixed (getThemeTokens_role_st eng theme isDark)"
proof -
  have "fst (getThemeTokens_role_st eng theme isDark w)
          = new_Map (fst (hexEntries eng
              (roleArgbs (if isDark then dark (schemes theme) else light (schemes theme))) w))"
    for w
    by (simp add: getThemeTokens_role_st_def Let_def split: prod.splits)
  moreover from answerFixed_hexEntries [OF assms]
  have "fst (hexEntries eng table w) = fst (hexEntries eng table w')" for table w w'
    unfolding answerFixed_def by blast
  ultimately show ?thesis unfolding answerFixed_def by metis
qed

lemma answerFixed_getThemeTokens_tone_st:
  assumes "engineAnswersFixed eng"
  shows "answerFixed (getThemeTokens_tone_st eng theme isDark)"
  unfolding answerFixed_def
proof (intro allI)
  fix w w'
  let ?s = "if isDark then dark (schemes theme) else light (schemes theme)"
  obtain ls w1 where a: "hexEntries eng (lightArgbs ?s) w = (ls, w1)"
    by (cases "hexEntries eng (lightArgbs ?s) w")
  obtain ls' w1' where a': "hexEntries eng (lightArgbs ?s) w' = (ls', w1')"
    by (cases "hexEntries eng (lightArgbs ?s) w'")
  obtain ds w2 where b: "hexEntries eng (darkArgbs ?s) w1 = (ds, w2)"
    by (cases "hexEntries eng (darkArgbs ?s) w1")
  obtain ds' w2' where b': "hexEntries eng (darkArgbs ?s) w1' = (ds', w2')"
    by (cases "hexEntries eng (darkArgbs ?s) w1'")
  from answerFixed_hexEntries [OF assms]
  have fx: "fst (hexEntries eng table v) = fst (hexEntries eng table v')" for table v v'
    unfolding answerFixed_def by blast
  from fx [of "lightArgbs ?s" w w'] a a' have l: "ls' = ls" by simp
  from fx [of "darkArgbs ?s" w1 w1'] b b' have d: "ds' = ds" by simp
  show "fst (getThemeTokens_tone_st eng theme isDark w)
          = fst (getThemeTokens_tone_st eng theme isDark w')"
    using a a' b b' l d by (simp add: getThemeTokens_tone_st_def Let_def)
qed

lemma answerFixed_tokensFor_role_st:
  assumes "engineAnswersFixed eng"
  shows "answerFixed (tokensFor_role_st eng src vnt c ccs isDark)"
  unfolding tokensFor_role_st_def
proof (intro answerFixed_bind answerFixed_createMaterialTheme_st assms)
  fix theme
  from answerFixed_getThemeTokens_role_st [OF assms, of theme isDark]
  show "answerFixed (\<lambda>w. case getThemeTokens_role_st eng theme isDark w of
          (tokens, w1) \<Rightarrow> (Inr tokens, w1))"
    unfolding answerFixed_def by (simp split: prod.splits) (metis fst_conv)
qed

lemma answerFixed_tokensFor_tone_st:
  assumes "engineAnswersFixed eng"
  shows "answerFixed (tokensFor_tone_st eng src vnt c ccs isDark)"
  unfolding tokensFor_tone_st_def
proof (intro answerFixed_bind answerFixed_createMaterialTheme_st assms)
  fix theme
  from answerFixed_getThemeTokens_tone_st [OF assms, of theme isDark]
  show "answerFixed (\<lambda>w. case getThemeTokens_tone_st eng theme isDark w of
          (tokens, w1) \<Rightarrow> (Inr tokens, w1))"
    unfolding answerFixed_def by (simp split: prod.splits) (metis fst_conv)
qed

lemma mapCall_reading:
  "mapCall (\<lambda>x w. (g w x, w)) xs w = (mapResult (g w) xs, w)"
  by (induction xs) (auto simp: bind_call_def split: sum.splits)

lemma mapState_reading:
  "mapState (\<lambda>x w. (g w x, w)) xs w = (map (g w) xs, w)"
  by (induction xs) auto

lemma newScheme_st_reading:
  "newScheme_st (\<lambda>hct isDark c w. (ctor (E w) hct isDark c, w)) (reading E) src isDark c w
     = (newScheme (ctor (E w)) (E w) src isDark c, w)"
  by (simp add: newScheme_st_def newScheme_def bind_call_def reading_def split: sum.splits)

lemma schemePair_st_reading:
  "schemePair_st (\<lambda>hct isDark c w. (ctor (E w) hct isDark c, w)) (reading E) src c w
     = (schemePair (ctor (E w)) (E w) src c, w)"
  by (simp add: schemePair_st_def schemePair_def bind_call_def newScheme_st_reading
        split: sum.splits)

lemma reading_constructors:
  "st_SchemeMonochrome (reading E) = (\<lambda>hct isDark c w. (SchemeMonochrome (E w) hct isDark c, w))"
  "st_SchemeNeutral (reading E) = (\<lambda>hct isDark c w. (SchemeNeutral (E w) hct isDark c, w))"
  "st_SchemeTonalSpot (reading E) = (\<lambda>hct isDark c w. (SchemeTonalSpot (E w) hct isDark c, w))"
  "st_SchemeVibrant (reading E) = (\<lambda>hct isDark c w. (SchemeVibrant (E w) hct isDark c, w))"
  "st_SchemeExpressive (reading E) = (\<lambda>hct isDark c w. (SchemeExpressive (E w) hct isDark c, w))"
  "st_SchemeFidelity (reading E) = (\<lambda>hct isDark c w. (SchemeFidelity (E w) hct isDark c, w))"
  "st_SchemeContent (reading E) = (\<lambda>hct isDark c w. (SchemeContent (E w) hct isDark c, w))"
  "st_SchemeRainbow (reading E) = (\<lambda>hct isDark c w. (SchemeRainbow (E w) hct isDark c, w))"
  "st_SchemeFruitSalad (reading E) = (\<lambda>hct isDark c w. (SchemeFruitSalad (E w) hct isDark c, w))"
  by (simp_all add: reading_def)

lemma switchVariant_st_reading:
  "switchVariant_st (reading E) src vnt c initial w = (switchVariant (E w) src vnt c initial, w)"
  by (simp add: switchVariant_st_def switchVariant_def reading_constructors schemePair_st_reading)

lemma createMaterialTheme_st_reading:
  "createMaterialTheme_st (reading E) src vnt c ccs w = (createMaterialTheme (E w) src vnt c ccs, w)"
proof -
  have cc: "st_customColor (reading E) src = (\<lambda>x w. (customColor (E w) src x, w))"
    by (simp add: reading_def)
  show ?thesis
    by (simp add: createMaterialTheme_st_def createMaterialTheme_def bind_call_def
          reading_constructors schemePair_st_reading switchVariant_st_reading cc mapCall_reading
          split: sum.splits prod.splits)
qed

lemma hexEntries_reading:
  "hexEntries (reading E) table w = (map (\<lambda>(k, argb). (k, hexFromArgb (E w) argb)) table, w)"
proof -
  have eq: "(\<lambda>(k, argb) w. case st_hexFromArgb (reading E) argb w of (v, w1) \<Rightarrow> ((k, v), w1))
          = (\<lambda>x w. ((\<lambda>(k, argb). (k, hexFromArgb (E w) argb)) x, w))"
    by (auto simp: reading_def fun_eq_iff)
  show ?thesis unfolding hexEntries_def eq by (rule mapState_reading)
qed

lemma roleArgbs_entries:
  "map (\<lambda>(k, argb). (k, hexFromArgb eng argb)) (roleArgbs scheme) = roleEntries eng scheme"
  by (simp add: roleArgbs_def roleEntries_def)

lemma lightArgbs_entries:
  "map (\<lambda>(k, argb). (k, hexFromArgb eng argb)) (lightArgbs scheme) = lightEntries eng scheme"
  by (simp add: lightArgbs_def lightEntries_def)

lemma darkArgbs_entries:
  "map (\<lambda>(k, argb). (k, hexFromArgb eng argb)) (darkArgbs scheme) = darkEntries eng scheme"
  by (simp add: darkArgbs_def darkEntries_def)

lemma getThemeTokens_role_st_reading:
  "getThemeTokens_role_st (reading E) theme isDark w = (getThemeTokens_role (E w) theme isDark, w)"
  by (simp add: getThemeTokens_role_st_def getThemeTokens_role_def hexEntries_reading
        roleArgbs_entries Let_def)

lemma getThemeTokens_tone_st_reading:
  "getThemeTokens_tone_st (reading E) theme isDark w = (getThemeTokens_tone (E w) theme isDark, w)"
  by (simp add: getThemeTokens_tone_st_def getThemeTokens_tone_def hexEntries_reading
        lightArgbs_entries darkArgbs_entries lightColors_def darkColors_def Let_def)

lemma tokensFor_role_st_reading:
  "tokensFor_role_st (reading E) src vnt c ccs isDark w
     = (tokensFor_role (E w) src vnt c ccs isDark, w)"
  by (simp add: tokensFor_role_st_def tokensFor_role_def bind_call_def
        createMaterialTheme_st_reading getThemeTokens_role_st_reading split: sum.splits)

lemma tokensFor_tone_st_reading:
  "tokensFor_tone_st (reading E) src vnt c ccs isDark w
     = (tokensFor_tone (E w) src vnt c ccs isDark, w)"
  by (simp add: tokensFor_tone_st_def tokensFor_tone_def bind_call_def
        createMaterialTheme_st_reading getThemeTokens_tone_st_reading split: sum.splits)

lemma hd_roleEntries:
  "hd (roleEntries eng scheme)
     = (''--md-sys-color-background'', hexFromArgb eng (background scheme))"
  by (simp add: roleEntries_def)

text \<open>
  The condition on the engine cannot be dropped: over \<open>drifting_engine\<close>, whose answers move
  with the state, the same inputs give two different token maps.
\<close>

lemma drifting_engine_differs:
  "fst (tokensFor_role_st drifting_engine 0xFF006494 TONAL_SPOT 0 [] True 0)
     \<noteq> fst (tokensFor_role_st drifting_engine 0xFF006494 TONAL_SPOT 0 [] True 1)"
proof -
  define E where "E = (\<lambda>n::nat. demo_engine\<lparr>hexFromArgb := (\<lambda>argb. demo_hexFromArgb (argb + int n))\<rparr>)"
  define t where "t = \<lparr>source = 0xFF006494, variant = TONAL_SPOT,
             schemes = \<lparr>light = demo_scheme 2 0x006494 False,
                        dark = demo_scheme 2 0x006494 True\<rparr>,
             customColors = []\<rparr>"
  have t: "createMaterialTheme (E n) 0xFF006494 TONAL_SPOT 0 [] = Inr t" for n
    by (simp add: E_def t_def createMaterialTheme_def schemePair_def newScheme_def
          switchVariant_def demo_engine_def Variant_defs)
  have d: "drifting_engine = reading E"
    by (simp add: drifting_engine_def E_def)
  have r: "fst (tokensFor_role_st drifting_engine 0xFF006494 TONAL_SPOT 0 [] True n)
             = Inr (roleEntries (E n) (demo_scheme 2 0x006494 True))" for n
    by (simp add: d tokensFor_role_st_reading tokensFor_role_def t getThemeTokens_role_eq)
       (simp add: t_def)
  have bg: "background (demo_scheme 2 0x006494 True) = 0xFF81051A"
    by (simp add: demo_scheme_def demo_role_def)
  have h: "hexFromArgb (E n) argb = demo_hexFromArgb (argb + int n)" for n argb
    by (simp add: E_def)
  have a: "hd (roleEntries (E 0) (demo_scheme 2 0x006494 True))
             = (''--md-sys-color-background'', ''#81051a'')"
    by (simp add: hd_roleEntries bg h demo_hexFromArgb_def hexByte_def hexDigits_def)
  have b: "hd (roleEntries (E 1) (demo_scheme 2 0x006494 True))
             = (''--md-sys-color-background'', ''#81051b'')"
    by (simp add: hd_roleEntries bg h demo_hexFromArgb_def hexByte_def hexDigits_def)
  have "roleEntries (E 0) (demo_scheme 2 0x006494 True)
      \<noteq> roleEntries (E 1) (demo_scheme 2 0x006494 True)"
  proof
    assume "roleEntries (E 0) (demo_scheme 2 0x006494 True)
      = roleEntries (E 1) (demo_scheme 2 0x006494 True)"
    then have "hd (roleEntries (E 0) (demo_scheme 2 0x006494 True))
      = hd (roleEntries (E 1) (demo_scheme 2 0x006494 True))" by (rule arg_cong)
    then show False by (simp only: a b) simp
  qed
  then show ?thesis by (simp only: r [of 0] r [of 1] sum.inject simp_thms)
qed

lemma counting_engine_fixed: "engineAnswersFixed counting_engine"
  by (simp add: engineAnswersFixed_def answerFixed_def counting_engine_def
        stateful_constructors_def)

text \<open>
  Claim C3.  Building a theme and projecting it, run over an engine with a state of its own
  whose answers are fixed, gives an outcome (the list of entries in order, or the error) that
  does not depend on the state the run starts in: any two runs on the same
  (seed, variant, contrast, custom colours, mode) agree, and so does a second run started in
  the state the first one left.  This holds for the role-direct and for the tone-direct
  projection.  Over an engine without state the run is the pipeline of the sections above
  and leaves the state alone.
\<close>

theorem tokensFor_st_deterministic:
  assumes "engineAnswersFixed eng"
  shows "fst (tokensFor_role_st eng src vnt contrastLevel ccs isDark w')
           = fst (tokensFor_role_st eng src vnt contrastLevel ccs isDark w) \<and>
         fst (tokensFor_tone_st eng src vnt contrastLevel ccs isDark w')
           = fst (tokensFor_tone_st eng src vnt contrastLevel ccs isDark w) \<and>
         fst (tokensFor_role_st eng src vnt contrastLevel ccs isDark
                (snd (tokensFor_role_st eng src vnt contrastLevel ccs isDark w)))
           = fst (tokensFor_role_st eng src vnt contrastLevel ccs isDark w) \<and>
         fst (tokensFor_tone_st eng src vnt contrastLevel ccs isDark
                (snd (tokensFor_tone_st eng src vnt contrastLevel ccs isDark w)))
           = fst (tokensFor_tone_st eng src vnt contrastLevel ccs isDark w) \<and>
         tokensFor_role_st (stateless pure) src vnt contrastLevel ccs isDark w
           = (tokensFor_role pure src vnt contrastLevel ccs isDark, w) \<and>
         tokensFor_tone_st (stateless pure) src vnt contrastLevel ccs isDark w
           = (tokensFor_tone pure src vnt contrastLevel ccs isDark, w)"
proof -
  from answerFixed_tokensFor_role_st [OF assms, of src vnt contrastLevel ccs isDark]
  have r: "fst (tokensFor_role_st eng src vnt contrastLevel ccs isDark v)
             = fst (tokensFor_role_st eng src vnt contrastLevel ccs isDark w)" for v
    unfolding answerFixed_def by blast
  from answerFixed_tokensFor_tone_st [OF assms, of src vnt contrastLevel ccs isDark]
  have t: "fst (tokensFor_tone_st eng src vnt contrastLevel ccs isDark v)
             = fst (tokensFor_tone_st eng src vnt contrastLevel ccs isDark w)" for v
    unfolding answerFixed_def by blast
  have p1: "tokensFor_role_st (stateless pure) src vnt contrastLevel ccs isDark w
           = (tokensFor_role pure src vnt contrastLevel ccs isDark, w)"
    unfolding stateless_def by (rule tokensFor_role_st_reading)
  have p2: "tokensFor_tone_st (stateless pure) src vnt contrastLevel ccs isDark w
           = (tokensFor_tone pure src vnt contrastLevel ccs isDark, w)"
    unfolding stateless_def by (rule tokensFor_tone_st_reading)
  show ?thesis by (intro conjI r t p1 p2)
qed

theorem tokensFor_st_deterministic_witness:
  "fst (tokensFor_role_st counting_engine 0xFF006494 FIDELITY 0
          [\<lparr>name = ''brand'', val = 0xFFFF0000, blend = True\<rparr>] True
          (snd (tokensFor_role_st counting_engine 0xFF006494 FIDELITY 0
                  [\<lparr>name = ''brand'', val = 0xFFFF0000, blend = True\<rparr>] True 0)))
     = fst (tokensFor_role_st counting_engine 0xFF006494 FIDELITY 0
          [\<lparr>name = ''brand'', val = 0xFFFF0000, blend = True\<rparr>] True 0) \<and>
   fst (tokensFor_tone_st counting_engine 0xFF006494 FIDELITY 0
          [\<lparr>name = ''brand'', val = 0xFFFF0000, blend = True\<rparr>] True
          (snd (tokensFor_tone_st counting_engine 0xFF006494 FIDELITY 0
                  [\<lparr>name = ''brand'', val = 0xFFFF0000, blend = True\<rparr>] True 0)))
     = fst (tokensFor_tone_st counting_engine 0xFF006494 FIDELITY 0
          [\<lparr>name = ''brand'', val = 0xFFFF0000, blend = True\<rparr>] True 0) \<and>
   fst (tokensFor_role_st counting_engine 0xFF006494 FIDELITY 0
          [\<lparr>name = ''brand'', val = 0xFFFF0000, blend = True\<rparr>] True 7)
     = fst (tokensFor_role_st counting_engine 0xFF006494 FIDELITY 0
          [\<lparr>name = ''brand'', val = 0xFFFF0000, blend = True\<rparr>] True 0)"
proof -
  note th = tokensFor_st_deterministic [OF counting_engine_fixed,
      where src = "0xFF006494" and vnt = FIDELITY and contrastLevel = 0
        and ccs = "[\<lparr>name = ''brand'', val = 0xFFFF0000, blend = True\<rparr>]" and isDark = True
        and w = 0 and w' = 7 and pure = demo_engine]
  show ?thesis
  proof (intro conjI)
    show "fst (tokensFor_role_st counting_engine 0xFF006494 FIDELITY 0
          [\<lparr>name = ''brand'', val = 0xFFFF0000, blend = True\<rparr>] True
          (snd (tokensFor_role_st counting_engine 0xFF006494 FIDELITY 0
                  [\<lparr>name = ''brand'', val = 0xFFFF0000, blend = True\<rparr>] True 0)))
     = fst (tokensFor_role_st counting_engine 0xFF006494 FIDELITY 0
          [\<lparr>name = ''brand'', val = 0xFFFF0000, blend = True\<rparr>] True 0)"
      by (rule th [THEN conjunct2, THEN conjunct2, THEN conjunct1])
    show "fst (tokensFor_tone_st counting_engine 0xFF006494 FIDELITY 0
          [\<lparr>name = ''brand'', val = 0xFFFF0000, blend = True\<rparr>] True
          (snd (tokensFor_tone_st counting_engine 0xFF006494 FIDELITY 0
                  [\<lparr>name = ''brand'', val = 0xFFFF0000, blend = True\<rparr>] True 0)))
     = fst (tokensFor_tone_st counting_engine 0xFF006494 FIDELITY 0
          [\<lparr>name = ''brand'', val = 0xFFFF0000, blend = True\<rparr>] True 0)"
      by (rule th [THEN conjunct2, THEN conjunct2, THEN conjunct2, THEN conjunct1])
    show "fst (tokensFor_role_st counting_engine 0xFF006494 FIDELITY 0
          [\<lparr>name = ''brand'', val = 0xFFFF0000, blend = True\<rparr>] True 7)
     = fst (tokensFor_role_st counting_engine 0xFF006494 FIDELITY 0
          [\<lparr>name = ''brand'', val = 0xFFFF0000, blend = True\<rparr>] True 0)"
      by (rule th [THEN conjunct1])
  qed
qed

section \<open>The theme store and the hook: proofs\<close>

lemma themeEffect_failure:
  "built = Inl err \<Longrightarrow>
     themeEffect built st
       = Inr (st\<lparr>console := console st @ [(''Error generating material theme:'', err)]\<rparr>)"
  by (simp add: themeEffect_def)

lemma themeEffect_returns: "\<not> isl (themeEffect built st)"
  by (simp add: themeEffect_def split: sum.splits)

lemma buildTheme_A_malformed:
  "argbFromHex eng (sourceColor st) = Inl err \<Longrightarrow> buildTheme_A eng props st = Inl err"
  by (simp add: buildTheme_A_def)

lemma buildTheme_B_malformed:
  "argbFromHex eng (sourceColor st) = Inl err \<Longrightarrow> buildTheme_B eng props st = Inl err"
  by (simp add: buildTheme_B_def)

text \<open>
  Claim C7.  In both forms of the provider, when building the theme fails with \<open>err\<close>, the
  theme generation effect returns normally, leaves the held theme as it was (the last good
  theme, or none) and appends one \<^verbatim>\<open>console.error\<close> call carrying \<open>err\<close>.  A source
  colour that \<^verbatim>\<open>argbFromHex\<close> rejects is such a failure.  The effect never throws.
\<close>

theorem themeEffect_failure_keeps_theme:
  "(\<forall>err. buildTheme_A eng props st = Inl err \<longrightarrow>
      (\<exists>st'. themeEffect_A eng props st = Inr st' \<and>
             materialTheme st' = materialTheme st \<and>
             console st' = console st @ [(''Error generating material theme:'', err)])) \<and>
   (\<forall>err. buildTheme_B eng props st = Inl err \<longrightarrow>
      (\<exists>st'. themeEffect_B eng props st = Inr st' \<and>
             materialTheme st' = materialTheme st \<and>
             console st' = console st @ [(''Error generating material theme:'', err)])) \<and>
   (\<forall>err. argbFromHex eng (sourceColor st) = Inl err \<longrightarrow>
      buildTheme_A eng props st = Inl err \<and> buildTheme_B eng props st = Inl err) \<and>
   \<not> isl (themeEffect_A eng props st) \<and> \<not> isl (themeEffect_B eng props st)"
  by (simp add: themeEffect_A_def themeEffect_B_def themeEffect_failure themeEffect_returns
        buildTheme_A_malformed buildTheme_B_malformed)

theorem themeEffect_failure_keeps_theme_witness:
  "materialTheme (projr (themeEffect_A demo_engine
       \<lparr>p_isDark = False, p_variant = FIDELITY, p_defaultSourceColor = ''#006494'',
        p_customColors = []\<rparr>
       \<lparr>currentScheme = None,
        materialTheme = Some (projr (createMaterialTheme demo_engine 0xFF006494 FIDELITY 0 [])),
        sourceColor = ''not-a-color'', console = []\<rparr>))
     = Some (projr (createMaterialTheme demo_engine 0xFF006494 FIDELITY 0 [])) \<and>
   console (projr (themeEffect_A demo_engine
       \<lparr>p_isDark = False, p_variant = FIDELITY, p_defaultSourceColor = ''#006494'',
        p_customColors = []\<rparr>
       \<lparr>currentScheme = None,
        materialTheme = Some (projr (createMaterialTheme demo_engine 0xFF006494 FIDELITY 0 [])),
        sourceColor = ''not-a-color'', console = []\<rparr>))
     = [(''Error generating material theme:'', Error ''unexpected hex not-a-color'')] \<and>
   materialTheme (projr (themeEffect_B demo_engine
       \<lparr>p_isDark = False, p_variant = FIDELITY, p_defaultSourceColor = ''not-a-color'',
        p_customColors = []\<rparr>
       (initialStore \<lparr>p_isDark = False, p_variant = FIDELITY,
          p_defaultSourceColor = ''not-a-color'', p_customColors = []\<rparr>)))
     = None"
proof -
  define good where "good = projr (createMaterialTheme demo_engine 0xFF006494 FIDELITY 0 [])"
  define pA where "pA = \<lparr>p_isDark = False, p_variant = FIDELITY,
      p_defaultSourceColor = ''#006494'', p_customColors = []\<rparr>"
  define pB where "pB = \<lparr>p_isDark = False, p_variant = FIDELITY,
      p_defaultSourceColor = ''not-a-color'', p_customColors = []\<rparr>"
  define ready where "ready = \<lparr>currentScheme = None, materialTheme = Some good,
      sourceColor = ''not-a-color'', console = []\<rparr>"
  have hex: "argbFromHex demo_engine ''not-a-color'' = Inl (Error ''unexpected hex not-a-color'')"
    by (simp add: demo_engine_def demo_argbFromHex_def)
  have hA: "argbFromHex demo_engine (sourceColor ready) = Inl (Error ''unexpected hex not-a-color'')"
    using hex by (simp add: ready_def)
  have hB: "argbFromHex demo_engine (sourceColor (initialStore pB))
              = Inl (Error ''unexpected hex not-a-color'')"
    using hex by (simp add: initialStore_def pB_def)
  note thA = themeEffect_failure_keeps_theme [where eng = demo_engine and props = pA and st = ready]
  note thB = themeEffect_failure_keeps_theme [where eng = demo_engine and props = pB
      and st = "initialStore pB"]
  from thA hA have bA: "buildTheme_A demo_engine pA ready = Inl (Error ''unexpected hex not-a-color'')"
    by blast
  from thA bA obtain st' where
    "themeEffect_A demo_engine pA ready = Inr st'" "materialTheme st' = materialTheme ready"
    "console st' = console ready @ [(''Error generating material theme:'',
        Error ''unexpected hex not-a-color'')]"
    by blast
  then have a: "materialTheme (projr (themeEffect_A demo_engine pA ready)) = Some good"
    and b: "console (projr (themeEffect_A demo_engine pA ready))
       = [(''Error generating material theme:'', Error ''unexpected hex not-a-color'')]"
    by (simp_all add: ready_def)
  from thB hB have bB: "buildTheme_B demo_engine pB (initialStore pB)
      = Inl (Error ''unexpected hex not-a-color'')"
    by blast
  from thB bB obtain st'' where
    "themeEffect_B demo_engine pB (initialStore pB) = Inr st''"
    "materialTheme st'' = materialTheme (initialStore pB)"
    by blast
  then have c: "materialTheme (projr (themeEffect_B demo_engine pB (initialStore pB))) = None"
    by (simp add: initialStore_def)
  show ?thesis using a b c unfolding good_def pA_def pB_def ready_def by blast
qed

lemma themeEffect_success:
  "built = Inr theme \<Longrightarrow> themeEffect built st = Inr (st\<lparr>materialTheme := Some theme\<rparr>)"
  by (simp add: themeEffect_def)

lemma buildTheme_A_customColors:
  assumes "buildTheme_A eng props st = Inr theme"
  shows "customColors theme = []"
proof -
  from assms obtain argb where
    "createMaterialTheme eng argb (p_variant props) 0 [] = Inr theme"
    by (auto simp: buildTheme_A_def split: sum.splits)
  from createMaterialTheme_Inr_fields(3) [OF this] show ?thesis by simp
qed

lemma customColorsArgb_Inr:
  assumes "customColorsArgb eng defs = Inr ccs"
  shows "length ccs = length defs" and "map name ccs = map name defs"
    and "map blend ccs = map blend defs"
proof -
  from assms have l: "list_all2 (\<lambda>color c. (case argbFromHex eng (val color) of
                   Inl e \<Rightarrow> Inl e
                 | Inr argb \<Rightarrow> Inr \<lparr>name = name color, val = argb, blend = blend color\<rparr>) = Inr c)
        defs ccs"
    by (simp add: customColorsArgb_def mapResult_Inr_iff)
  then show "length ccs = length defs" by (simp add: list_all2_lengthD)
  from l show "map name ccs = map name defs"
    by (induction defs ccs rule: list_all2_induct) (auto split: sum.splits)
  from l show "map blend ccs = map blend defs"
    by (induction defs ccs rule: list_all2_induct) (auto split: sum.splits)
qed

lemma buildTheme_B_customColors:
  assumes "buildTheme_B eng props st = Inr theme"
  shows "length (customColors theme) = length (p_customColors props)"
    and "\<exists>argb ccs. argbFromHex eng (sourceColor st) = Inr argb \<and>
           customColorsArgb eng (p_customColors props) = Inr ccs \<and>
           map name ccs = map name (p_customColors props) \<and>
           list_all2 (\<lambda>c g. customColor eng argb c = Inr g) ccs (customColors theme)"
proof -
  from assms obtain argb ccs where a: "argbFromHex eng (sourceColor st) = Inr argb"
    and c: "customColorsArgb eng (p_customColors props) = Inr ccs"
    and t: "createMaterialTheme eng argb FIDELITY 0 ccs = Inr theme"
    by (auto simp: buildTheme_B_def split: sum.splits)
  from createMaterialTheme_Inr_fields(3) [OF t]
  have m: "list_all2 (\<lambda>c g. customColor eng argb c = Inr g) ccs (customColors theme)"
    by (simp add: mapResult_Inr_iff)
  then have "length (customColors theme) = length ccs" by (simp add: list_all2_lengthD)
  with customColorsArgb_Inr(1) [OF c]
  show "length (customColors theme) = length (p_customColors props)" by simp
  from a c m customColorsArgb_Inr(2) [OF c]
  show "\<exists>argb ccs. argbFromHex eng (sourceColor st) = Inr argb \<and>
           customColorsArgb eng (p_customColors props) = Inr ccs \<and>
           map name ccs = map name (p_customColors props) \<and>
           list_all2 (\<lambda>c g. customColor eng argb c = Inr g) ccs (customColors theme)"
    by blast
qed

lemma demo_argbFromHex_006494: "argbFromHex demo_engine ''#006494'' = Inr 0xFF006494"
  by (simp add: demo_engine_def demo_argbFromHex_def hexDigitValue_def)

lemma demo_argbFromHex_ff0000: "argbFromHex demo_engine ''#ff0000'' = Inr 0xFFFF0000"
  by (simp add: demo_engine_def demo_argbFromHex_def hexDigitValue_def)

text \<open>
  Claim C8, evaluated.  A provider is given the custom colour \<^verbatim>\<open>brand\<close>.  After the theme
  generation effect of form A the held theme has no custom colours; after that of form B it
  has one group, named \<^verbatim>\<open>brand\<close>.
\<close>

theorem themeEffect_A_drops_customColors:
  "map_option customColors (materialTheme (projr (themeEffect_A demo_engine
       \<lparr>p_isDark = False, p_variant = FIDELITY, p_defaultSourceColor = ''#006494'',
        p_customColors = [\<lparr>name = ''brand'', val = ''#ff0000'', blend = True\<rparr>]\<rparr>
       (initialStore \<lparr>p_isDark = False, p_variant = FIDELITY,
          p_defaultSourceColor = ''#006494'',
          p_customColors = [\<lparr>name = ''brand'', val = ''#ff0000'', blend = True\<rparr>]\<rparr>))))
     = Some [] \<and>
   map_option (\<lambda>theme. map (\<lambda>g. name (color g)) (customColors theme))
     (materialTheme (projr (themeEffect_B demo_engine
       \<lparr>p_isDark = False, p_variant = FIDELITY, p_defaultSourceColor = ''#006494'',
        p_customColors = [\<lparr>name = ''brand'', val = ''#ff0000'', blend = True\<rparr>]\<rparr>
       (initialStore \<lparr>p_isDark = False, p_variant = FIDELITY,
          p_defaultSourceColor = ''#006494'',
          p_customColors = [\<lparr>name = ''brand'', val = ''#ff0000'', blend = True\<rparr>]\<rparr>))))
     = Some [''brand'']"
proof -
  define props where "props = \<lparr>p_isDark = False, p_variant = FIDELITY,
      p_defaultSourceColor = ''#006494'',
      p_customColors = [\<lparr>name = ''brand'', val = ''#ff0000'', blend = True\<rparr>]\<rparr>"
  define tA where "tA = projr (createMaterialTheme demo_engine 0xFF006494 FIDELITY 0 [])"
  define tB where "tB = projr (createMaterialTheme demo_engine 0xFF006494 FIDELITY 0
      [\<lparr>name = ''brand'', val = 0xFFFF0000, blend = True\<rparr>])"
  have bA: "buildTheme_A demo_engine props (initialStore props) = Inr tA"
    unfolding tA_def
    by (simp add: buildTheme_A_def initialStore_def props_def demo_argbFromHex_006494
          demo_engine_builds [symmetric])
  have cc: "customColorsArgb demo_engine [\<lparr>name = ''brand'', val = ''#ff0000'', blend = True\<rparr>]
              = Inr [\<lparr>name = ''brand'', val = 0xFFFF0000, blend = True\<rparr>]"
    by (simp add: customColorsArgb_def demo_argbFromHex_ff0000)
  have bB: "buildTheme_B demo_engine props (initialStore props) = Inr tB"
    unfolding tB_def
    by (simp add: buildTheme_B_def cc initialStore_def props_def demo_argbFromHex_006494
          demo_engine_builds [symmetric])
  have a: "customColors tA = []"
    by (rule buildTheme_A_customColors [OF bA])
  have "createMaterialTheme demo_engine 0xFF006494 FIDELITY 0
      [\<lparr>name = ''brand'', val = 0xFFFF0000, blend = True\<rparr>] = Inr tB"
    unfolding tB_def by (rule demo_engine_builds)
  from createMaterialTheme_Inr_fields(3) [OF this]
  have "list_all2 (\<lambda>c g. customColor demo_engine 0xFF006494 c = Inr g)
          [\<lparr>name = ''brand'', val = 0xFFFF0000, blend = True\<rparr>] (customColors tB)"
    by (simp only: mapResult_Inr_iff)
  then have b: "map (\<lambda>g. name (color g)) (customColors tB) = [''brand'']"
    by (auto simp: list_all2_Cons1 demo_engine_def demo_customColor_def Let_def)
  have "themeEffect_A demo_engine props (initialStore props)
          = Inr ((initialStore props)\<lparr>materialTheme := Some tA\<rparr>)"
    by (simp add: themeEffect_A_def themeEffect_success [OF bA])
  moreover have "themeEffect_B demo_engine props (initialStore props)
          = Inr ((initialStore props)\<lparr>materialTheme := Some tB\<rparr>)"
    by (simp add: themeEffect_B_def themeEffect_success [OF bB])
  ultimately show ?thesis using a b unfolding props_def [symmetric] by simp
qed

text \<open>
  Claim C9.  Outside any provider the hook of form B returns the default context object and
  does not throw, and under a provider it returns the provider's value, so its guard is
  never taken; outside any provider the hook of form A throws the error of the guard.
\<close>

theorem useMaterialTheme_outside_provider:
  "useMaterialTheme_B None
     = Inr \<lparr>ctx_materialTheme = None, ctx_setSourceColor = NoOp, ctx_currentScheme = None\<rparr> \<and>
   (\<forall>context. useMaterialTheme_B (Some (Some context)) = Inr context) \<and>
   useMaterialTheme_A None
     = Inl (Error ''useMaterialTheme must be used within a MaterialThemeProvider'') \<and>
   (\<forall>context. useMaterialTheme_A (Some (Some context)) = Inr context)"
  by (simp add: useMaterialTheme_A_def useMaterialTheme_B_def useMaterialTheme_def
        useContext_def MaterialThemeContext_A_def MaterialThemeContext_B_def)

end
